theory Spec2Isabelle
  imports Complex_Main "HOL-Library.Sublist"
begin

section \<open>Numeric primitives\<close>

text \<open>
  The program of \<^verbatim>\<open>Identify_18_BetaTurn_Types.py\<close> computes on Python floats.
  They are modelled as real numbers: \<^verbatim>\<open>math.cos\<close> is \<^term>\<open>cos\<close>,
  \<^verbatim>\<open>math.radians\<close> and \<^verbatim>\<open>math.degrees\<close> are the two scalings below,
  and a decimal literal of the source is the rational it denotes.
  Exceptions are values of \<open>py_error\<close>, carried in the left summand.
\<close>

datatype py_error = ValueError string | KeyError string | NameError string

definition radians :: "real \<Rightarrow> real" where
  "radians x = x * pi / 180"

definition degrees :: "real \<Rightarrow> real" where
  "degrees x = x * 180 / pi"

text \<open>\<^verbatim>\<open>math.acos\<close> raises \<^verbatim>\<open>ValueError\<close> outside \<open>[-1, 1]\<close>.\<close>

definition acos_py :: "real \<Rightarrow> py_error + real" where
  "acos_py x = (if x < - 1 \<or> 1 < x then Inl (ValueError ''math domain error'')
                else Inr (arccos x))"

definition TURN_DIST_CUTOFF :: real where
  "TURN_DIST_CUTOFF = 2359 / 10000"

definition angle_distance :: "real \<Rightarrow> real \<Rightarrow> real" where
  "angle_distance angle1 angle2 =
     (let delta = angle1 - angle2;
          delta_rad = radians delta;
          delta_cos = cos delta_rad;
          distance = 2 * (1 - delta_cos)
      in distance)"

definition find_theta_in_degrees :: "real \<Rightarrow> py_error + real" where
  "find_theta_in_degrees D =
     (if D < 0 \<or> D > 4
      then Inl (ValueError ''D must be in the range [0, 4] for a real solution.'')
      else let cos_theta = 1 - D / 2 in
           case acos_py cos_theta of
             Inl e \<Rightarrow> Inl e
           | Inr theta_rad \<Rightarrow> Inr (degrees theta_rad))"

section \<open>The turn reference library\<close>

text \<open>
  \<^verbatim>\<open>define_turn_library\<close> builds a dictionary from the type code to a dictionary
  of fields. A Python dictionary iterates in insertion order, so the library is an
  association list in the order of the assignments. The record keeps the identity
  fields and the seven medoid angles; the remaining descriptive fields
  (\<^verbatim>\<open>mode_*\<close>, the C-alpha distance statistics, \<^verbatim>\<open>medoid_aa*\<close>,
  \<^verbatim>\<open>medoid_ss*\<close> and the exemplar identifiers) are never read by the program.
\<close>

record turn_cluster =
  no_by_size :: nat
  cluster_size :: nat
  frequency :: real
  bturn_name :: string
  prev_name :: string
  medoid_omega2 :: real
  medoid_phi2 :: real
  medoid_psi2 :: real
  medoid_omega3 :: real
  medoid_phi3 :: real
  medoid_psi3 :: real
  medoid_omega4 :: real

type_synonym turn_library = "(string \<times> turn_cluster) list"

definition define_turn_library :: turn_library where
  "define_turn_library =
    [
     (''AD'',
      \<lparr>no_by_size = 1, cluster_size = 6413, frequency = 49217 / 100000,
       bturn_name = ''AD'', prev_name = ''I'',
       medoid_omega2 = 18488 / 100, medoid_phi2 = - 6527 / 100, medoid_psi2 = - 2352 / 100,
       medoid_omega3 = 18283 / 100, medoid_phi3 = - 9873 / 100,
       medoid_psi3 = - 1806 / 100, medoid_omega4 = 18110 / 100\<rparr>),
     (''Pd'',
      \<lparr>no_by_size = 2, cluster_size = 1556, frequency = 11942 / 100000,
       bturn_name = ''Pd'', prev_name = ''II'',
       medoid_omega2 = 17869 / 100, medoid_phi2 = - 5528 / 100, medoid_psi2 = 13276 / 100,
       medoid_omega3 = 17553 / 100, medoid_phi3 = 8238 / 100,
       medoid_psi3 = - 288 / 100, medoid_omega4 = 17960 / 100\<rparr>),
     (''Pa'',
      \<lparr>no_by_size = 3, cluster_size = 802, frequency = 6155 / 100000,
       bturn_name = ''Pa'', prev_name = ''new_prev_II'',
       medoid_omega2 = 18097 / 100, medoid_phi2 = - 7976 / 100, medoid_psi2 = 14911 / 100,
       medoid_omega3 = 17092 / 100, medoid_phi3 = 6147 / 100,
       medoid_psi3 = 3221 / 100, medoid_omega4 = 18014 / 100\<rparr>),
     (''ad'',
      \<lparr>no_by_size = 4, cluster_size = 748, frequency = 5741 / 100000,
       bturn_name = ''ad'', prev_name = ''I'' @ [CHR 0x27],
       medoid_omega2 = 17714 / 100, medoid_phi2 = 5408 / 100, medoid_psi2 = 3714 / 100,
       medoid_omega3 = 17419 / 100, medoid_phi3 = 7707 / 100,
       medoid_psi3 = 766 / 100, medoid_omega4 = 18245 / 100\<rparr>),
     (''AB1'',
      \<lparr>no_by_size = 5, cluster_size = 648, frequency = 4973 / 100000,
       bturn_name = ''AB1'', prev_name = ''new_prev_VIII'',
       medoid_omega2 = 17829 / 100, medoid_phi2 = - 7675 / 100, medoid_psi2 = - 3307 / 100,
       medoid_omega3 = 18005 / 100, medoid_phi3 = - 13767 / 100,
       medoid_psi3 = 15599 / 100, medoid_omega4 = 17953 / 100\<rparr>),
     (''AZ'',
      \<lparr>no_by_size = 6, cluster_size = 625, frequency = 4797 / 100000,
       bturn_name = ''AZ'', prev_name = ''new_prev_VIII'',
       medoid_omega2 = 18151 / 100, medoid_phi2 = - 8381 / 100, medoid_psi2 = - 1776 / 100,
       medoid_omega3 = 18270 / 100, medoid_phi3 = - 12888 / 100,
       medoid_psi3 = 6172 / 100, medoid_omega4 = 17781 / 100\<rparr>),
     (''AB2'',
      \<lparr>no_by_size = 7, cluster_size = 603, frequency = 4628 / 100000,
       bturn_name = ''AB2'', prev_name = ''VIII'',
       medoid_omega2 = 17988 / 100, medoid_phi2 = - 7637 / 100, medoid_psi2 = - 3397 / 100,
       medoid_omega3 = 18430 / 100, medoid_phi3 = - 11648 / 100,
       medoid_psi3 = 12010 / 100, medoid_omega4 = 18338 / 100\<rparr>),
     (''pD'',
      \<lparr>no_by_size = 8, cluster_size = 402, frequency = 3085 / 100000,
       bturn_name = ''pD'', prev_name = ''II'' @ [CHR 0x27],
       medoid_omega2 = 17742 / 100, medoid_phi2 = 5616 / 100, medoid_psi2 = - 13560 / 100,
       medoid_omega3 = 18317 / 100, medoid_phi3 = - 9092 / 100,
       medoid_psi3 = 481 / 100, medoid_omega4 = 18004 / 100\<rparr>),
     (''AG'',
      \<lparr>no_by_size = 9, cluster_size = 166, frequency = 1274 / 100000,
       bturn_name = ''AG'', prev_name = ''new_prev_VIII'',
       medoid_omega2 = 18432 / 100, medoid_phi2 = - 7178 / 100, medoid_psi2 = - 1584 / 100,
       medoid_omega3 = 18719 / 100, medoid_phi3 = - 8770 / 100,
       medoid_psi3 = 7465 / 100, medoid_omega4 = 18163 / 100\<rparr>),
     (''BcisP'',
      \<lparr>no_by_size = 10, cluster_size = 135, frequency = 1036 / 100000,
       bturn_name = ''BcisP'', prev_name = ''VIb'',
       medoid_omega2 = 17627 / 100, medoid_phi2 = - 12705 / 100, medoid_psi2 = 12042 / 100,
       medoid_omega3 = 35800 / 100, medoid_phi3 = - 6563 / 100,
       medoid_psi3 = 16127 / 100, medoid_omega4 = 18214 / 100\<rparr>),
     (''dD'',
      \<lparr>no_by_size = 11, cluster_size = 131, frequency = 1005 / 100000,
       bturn_name = ''dD'', prev_name = ''new'',
       medoid_omega2 = 18257 / 100, medoid_phi2 = 9989 / 100, medoid_psi2 = - 1734 / 100,
       medoid_omega3 = 18502 / 100, medoid_phi3 = - 11378 / 100,
       medoid_psi3 = 987 / 100, medoid_omega4 = 18065 / 100\<rparr>),
     (''PcisD'',
      \<lparr>no_by_size = 12, cluster_size = 125, frequency = 959 / 100000,
       bturn_name = ''PcisD'', prev_name = ''VIa1'',
       medoid_omega2 = 17504 / 100, medoid_phi2 = - 5970 / 100, medoid_psi2 = 14437 / 100,
       medoid_omega3 = 921 / 100, medoid_phi3 = - 9277 / 100,
       medoid_psi3 = 832 / 100, medoid_omega4 = 17556 / 100\<rparr>),
     (''dN'',
      \<lparr>no_by_size = 13, cluster_size = 102, frequency = 783 / 100000,
       bturn_name = ''dN'', prev_name = ''new'',
       medoid_omega2 = 17853 / 100, medoid_phi2 = 7606 / 100, medoid_psi2 = - 315 / 100,
       medoid_omega3 = 17931 / 100, medoid_phi3 = - 12282 / 100,
       medoid_psi3 = - 5046 / 100, medoid_omega4 = 17984 / 100\<rparr>),
     (''Dd'',
      \<lparr>no_by_size = 14, cluster_size = 87, frequency = 668 / 100000,
       bturn_name = ''Dd'', prev_name = ''new'',
       medoid_omega2 = 17754 / 100, medoid_phi2 = - 9908 / 100, medoid_psi2 = 1956 / 100,
       medoid_omega3 = 17380 / 100, medoid_phi3 = 10872 / 100,
       medoid_psi3 = - 1453 / 100, medoid_omega4 = 18216 / 100\<rparr>),
     (''PcisP'',
      \<lparr>no_by_size = 15, cluster_size = 59, frequency = 453 / 100000,
       bturn_name = ''PcisP'', prev_name = ''new_prev_VIb'',
       medoid_omega2 = 18355 / 100, medoid_phi2 = - 7886 / 100, medoid_psi2 = 14545 / 100,
       medoid_omega3 = 35382 / 100, medoid_phi3 = - 7806 / 100,
       medoid_psi3 = 14034 / 100, medoid_omega4 = 17816 / 100\<rparr>),
     (''cisDA'',
      \<lparr>no_by_size = 16, cluster_size = 52, frequency = 399 / 100000,
       bturn_name = ''cisDA'', prev_name = ''new'',
       medoid_omega2 = 14 / 100, medoid_phi2 = - 9753 / 100, medoid_psi2 = 393 / 100,
       medoid_omega3 = 18413 / 100, medoid_phi3 = - 6686 / 100,
       medoid_psi3 = - 3589 / 100, medoid_omega4 = 18202 / 100\<rparr>),
     (''pG'',
      \<lparr>no_by_size = 17, cluster_size = 32, frequency = 246 / 100000,
       bturn_name = ''pG'', prev_name = ''new'',
       medoid_omega2 = 18870 / 100, medoid_phi2 = 6828 / 100, medoid_psi2 = - 13960 / 100,
       medoid_omega3 = 17807 / 100, medoid_phi3 = - 7992 / 100,
       medoid_psi3 = 12191 / 100, medoid_omega4 = 17554 / 100\<rparr>),
     (''cisDP'',
      \<lparr>no_by_size = 18, cluster_size = 25, frequency = 192 / 100000,
       bturn_name = ''cisDP'', prev_name = ''new'',
       medoid_omega2 = 1110 / 100, medoid_phi2 = - 8647 / 100, medoid_psi2 = 444 / 100,
       medoid_omega3 = 16999 / 100, medoid_phi3 = - 7139 / 100,
       medoid_psi3 = 15780 / 100, medoid_omega4 = 17512 / 100\<rparr>)]"

section \<open>The classifier\<close>

text \<open>The seven dihedral angles of a window, in the order the program reads them.\<close>

record dihedrals =
  omega2 :: real
  phi2 :: real
  psi2 :: real
  omega3 :: real
  phi3 :: real
  psi3 :: real
  omega4 :: real

text \<open>The value \<^verbatim>\<open>D\<close> of one iteration of the loop over the library.\<close>

definition cluster_D :: "dihedrals \<Rightarrow> turn_cluster \<Rightarrow> real" where
  "cluster_D a c =
     (angle_distance (omega2 a) (medoid_omega2 c) +
      angle_distance (phi2 a) (medoid_phi2 c) +
      angle_distance (psi2 a) (medoid_psi2 c) +
      angle_distance (omega3 a) (medoid_omega3 c) +
      angle_distance (phi3 a) (medoid_phi3 c) +
      angle_distance (psi3 a) (medoid_psi3 c) +
      angle_distance (omega4 a) (medoid_omega4 c)) / 7"

text \<open>
  The argument pairs with which one evaluation of \<^verbatim>\<open>D\<close> calls
  \<^verbatim>\<open>angle_distance\<close>, in call order.
\<close>

definition cluster_D_calls :: "dihedrals \<Rightarrow> turn_cluster \<Rightarrow> (real \<times> real) list" where
  "cluster_D_calls a c =
     [(omega2 a, medoid_omega2 c), (phi2 a, medoid_phi2 c), (psi2 a, medoid_psi2 c),
      (omega3 a, medoid_omega3 c), (phi3 a, medoid_phi3 c), (psi3 a, medoid_psi3 c),
      (omega4 a, medoid_omega4 c)]"

text \<open>
  The loop \<^verbatim>\<open>for turn in turnlibrary\<close>: its state is the pair of \<^verbatim>\<open>minD\<close> and
  \<^verbatim>\<open>minturn\<close>. The variable \<^verbatim>\<open>minturn\<close> is not reset between windows, and is
  unbound (\<open>None\<close>) until its first assignment. The lookup \<^verbatim>\<open>turnlibrary[turn]\<close>
  of a key the iteration has just produced is the entry itself.
\<close>

fun nearest_loop :: "turn_library \<Rightarrow> dihedrals \<Rightarrow> real \<times> string option \<Rightarrow> real \<times> string option" where
  "nearest_loop [] a (minD, minturn) = (minD, minturn)"
| "nearest_loop ((turn, c) # rest) a (minD, minturn) =
     (let D = cluster_D a c in
      if D < minD then nearest_loop rest a (D, Some turn)
      else nearest_loop rest a (minD, minturn))"

text \<open>The seven medoid angles of a cluster, taken as the dihedrals of a window.\<close>

definition medoid_dihedrals :: "turn_cluster \<Rightarrow> dihedrals" where
  "medoid_dihedrals c =
     \<lparr>omega2 = medoid_omega2 c, phi2 = medoid_phi2 c, psi2 = medoid_psi2 c,
      omega3 = medoid_omega3 c, phi3 = medoid_phi3 c, psi3 = medoid_psi3 c,
      omega4 = medoid_omega4 c\<rparr>"

section \<open>The dihedral calculator\<close>

text \<open>
  A residue of the structure library, as far as the program reads it: the sequence
  number \<^verbatim>\<open>id[1]\<close>, the residue name and the named atoms with their coordinates.
  \<^verbatim>\<open>has_id\<close> tests the presence of an atom; indexing by an absent name raises
  \<^verbatim>\<open>KeyError\<close>. The function \<^verbatim>\<open>calc_dihedral\<close> belongs to the structure
  library and is a parameter \<open>cd\<close> of the model; its result is in radians.
\<close>

type_synonym vec = "real \<times> real \<times> real"

record residue =
  seqnum :: int
  residue_name :: string
  atoms :: "string \<Rightarrow> vec option"

definition has_id :: "residue \<Rightarrow> string \<Rightarrow> bool" where
  "has_id r name = (atoms r name \<noteq> None)"

definition get_vector :: "residue \<Rightarrow> string \<Rightarrow> py_error + vec" where
  "get_vector r name = (case atoms r name of None \<Rightarrow> Inl (KeyError name) | Some v \<Rightarrow> Inr v)"

text \<open>
  \<^verbatim>\<open>round(x, n)\<close> on reals: the nearest multiple of \<open>10\<close> to the power \<open>- n\<close>,
  a tie going to the even multiple.
\<close>

definition round_half_even :: "real \<Rightarrow> int" where
  "round_half_even y =
     (let f = \<lfloor>y\<rfloor>; d = y - of_int f
      in if d < 1 / 2 then f
         else if 1 / 2 < d then f + 1
         else if even f then f else f + 1)"

definition py_round :: "real \<Rightarrow> nat \<Rightarrow> real" where
  "py_round x n = of_int (round_half_even (x * 10 ^ n)) / 10 ^ n"

definition compute_phi ::
  "(vec \<Rightarrow> vec \<Rightarrow> vec \<Rightarrow> vec \<Rightarrow> real) \<Rightarrow> residue \<Rightarrow> residue \<Rightarrow> py_error + real" where
  "compute_phi cd prev_residue curr_residue =
     (if has_id prev_residue ''C'' \<and> has_id curr_residue ''N'' \<and>
         has_id curr_residue ''CA'' \<and> has_id curr_residue ''C'' \<and>
         seqnum curr_residue = seqnum prev_residue + 1
      then (case get_vector prev_residue ''C'' of Inl e \<Rightarrow> Inl e | Inr prev_c \<Rightarrow>
            case get_vector curr_residue ''N'' of Inl e \<Rightarrow> Inl e | Inr curr_n \<Rightarrow>
            case get_vector curr_residue ''CA'' of Inl e \<Rightarrow> Inl e | Inr curr_a \<Rightarrow>
            case get_vector curr_residue ''C'' of Inl e \<Rightarrow> Inl e | Inr curr_c \<Rightarrow>
              Inr (py_round (degrees (cd prev_c curr_n curr_a curr_c)) 6))
      else Inr 999)"

definition compute_psi ::
  "(vec \<Rightarrow> vec \<Rightarrow> vec \<Rightarrow> vec \<Rightarrow> real) \<Rightarrow> residue \<Rightarrow> residue \<Rightarrow> py_error + real" where
  "compute_psi cd curr_residue next_residue =
     (if has_id curr_residue ''N'' \<and> has_id curr_residue ''CA'' \<and>
         has_id curr_residue ''C'' \<and> has_id next_residue ''N'' \<and>
         seqnum next_residue = seqnum curr_residue + 1
      then (case get_vector curr_residue ''N'' of Inl e \<Rightarrow> Inl e | Inr curr_n \<Rightarrow>
            case get_vector curr_residue ''CA'' of Inl e \<Rightarrow> Inl e | Inr curr_a \<Rightarrow>
            case get_vector curr_residue ''C'' of Inl e \<Rightarrow> Inl e | Inr curr_c \<Rightarrow>
            case get_vector next_residue ''N'' of Inl e \<Rightarrow> Inl e | Inr next_n \<Rightarrow>
              Inr (py_round (degrees (cd curr_n curr_a curr_c next_n)) 6))
      else Inr 999)"

definition compute_omega ::
  "(vec \<Rightarrow> vec \<Rightarrow> vec \<Rightarrow> vec \<Rightarrow> real) \<Rightarrow> residue \<Rightarrow> residue \<Rightarrow> py_error + real" where
  "compute_omega cd prev_residue curr_residue =
     (if has_id prev_residue ''CA'' \<and> has_id prev_residue ''C'' \<and>
         has_id curr_residue ''N'' \<and> has_id curr_residue ''CA'' \<and>
         seqnum curr_residue = seqnum prev_residue + 1
      then (case get_vector prev_residue ''CA'' of Inl e \<Rightarrow> Inl e | Inr prev_ca \<Rightarrow>
            case get_vector prev_residue ''C'' of Inl e \<Rightarrow> Inl e | Inr prev_c \<Rightarrow>
            case get_vector curr_residue ''N'' of Inl e \<Rightarrow> Inl e | Inr curr_n \<Rightarrow>
            case get_vector curr_residue ''CA'' of Inl e \<Rightarrow> Inl e | Inr curr_a \<Rightarrow>
              Inr (py_round (degrees (cd prev_ca prev_c curr_n curr_a)) 6))
      else Inr 999)"

section \<open>Rows of the residue feature table\<close>

text \<open>
  A coordinate vector of the structure library is a triple of reals;
  \<^verbatim>\<open>(vector1 - vector4).norm()\<close> is the Euclidean length of the difference.
\<close>

fun vec_sub :: "vec \<Rightarrow> vec \<Rightarrow> vec" where
  "vec_sub (x1, y1, z1) (x2, y2, z2) = (x1 - x2, y1 - y2, z1 - z2)"

fun vec_norm :: "vec \<Rightarrow> real" where
  "vec_norm (x, y, z) = sqrt (x * x + y * y + z * z)"

text \<open>
  One dictionary of \<^verbatim>\<open>datadict[chain]\<close>. The entries \<^verbatim>\<open>model1\<close> and
  \<^verbatim>\<open>chi1\<close> to \<^verbatim>\<open>chi5\<close> are stored and never read; they are left out.
  \<^verbatim>\<open>CAcoor\<close> is \<^verbatim>\<open>None\<close> when the residue has no CA atom.
\<close>

record feature_row =
  chain_id :: string
  resnum :: int
  resname :: string
  res1 :: string
  omega :: real
  phi :: real
  psi :: real
  dssp_ss :: string
  three10 :: string
  auth_key :: "string \<times> string"
  label_key :: "(string \<times> string) option"
  CAcoor :: "vec option"

section \<open>Decimal conversion of integers\<close>

text \<open>
  \<^verbatim>\<open>str\<close> of a Python integer, and \<^verbatim>\<open>int\<close> of a string. The program
  applies \<^verbatim>\<open>int\<close> only to the second component of \<^verbatim>\<open>auth_key\<close>, which is a
  value of \<^verbatim>\<open>str\<close>; \<open>py_int\<close> reads such canonical decimal strings and
  returns \<^verbatim>\<open>ValueError\<close> on an empty string or a string with another character.
\<close>

definition digit_char :: "nat \<Rightarrow> char" where
  "digit_char d = char_of (48 + d)"

fun nat_digits :: "nat \<Rightarrow> string" where
  "nat_digits n = (if n < 10 then [digit_char n]
                   else nat_digits (n div 10) @ [digit_char (n mod 10)])"

declare nat_digits.simps [simp del]

definition py_str :: "int \<Rightarrow> string" where
  "py_str i = (if i < 0 then CHR ''-'' # nat_digits (nat (- i)) else nat_digits (nat i))"

definition is_digit :: "char \<Rightarrow> bool" where
  "is_digit c = (48 \<le> (of_char c :: nat) \<and> (of_char c :: nat) \<le> 57)"

definition digits_value :: "string \<Rightarrow> nat" where
  "digits_value ds = foldl (\<lambda>acc c. 10 * acc + (of_char c - 48)) 0 ds"

definition py_int :: "string \<Rightarrow> py_error + int" where
  "py_int s =
     (if s \<noteq> [] \<and> hd s = CHR ''-''
      then (if tl s \<noteq> [] \<and> list_all is_digit (tl s)
            then Inr (- int (digits_value (tl s)))
            else Inl (ValueError ''invalid literal for int() with base 10''))
      else (if s \<noteq> [] \<and> list_all is_digit s
            then Inr (int (digits_value s))
            else Inl (ValueError ''invalid literal for int() with base 10'')))"

section \<open>Assembly of the residue feature table\<close>

definition getres1 :: "string \<Rightarrow> string" where
  "getres1 res3 =
     (case map_of
        [(''ALA'', ''A''), (''CYS'', ''C''), (''ASP'', ''D''), (''GLU'', ''E''),
         (''PHE'', ''F''), (''GLY'', ''G''), (''HIS'', ''H''), (''ILE'', ''I''),
         (''LYS'', ''K''), (''LEU'', ''L''), (''MET'', ''M''), (''ASN'', ''N''),
         (''PRO'', ''P''), (''GLN'', ''Q''), (''ARG'', ''R''), (''SER'', ''S''),
         (''THR'', ''T''), (''VAL'', ''V''), (''TRP'', ''W''), (''TYR'', ''Y'')] res3 of
        Some c \<Rightarrow> c
      | None \<Rightarrow> ''X'')"

text \<open>
  The two tables read from the output of the annotator are dictionaries of
  dictionaries with string keys. The warning printed for a residue without a
  correspondence entry goes to the error stream and is not part of the state.
\<close>

type_synonym annotation_table = "string \<times> string \<Rightarrow> (string \<Rightarrow> string option) option"

definition find_label_key ::
  "annotation_table \<Rightarrow> string \<times> string \<Rightarrow> py_error + (string \<times> string) option" where
  "find_label_key seqscheme_dict key =
     (case seqscheme_dict key of
        None \<Rightarrow> Inr None
      | Some entry \<Rightarrow>
          (case entry ''asym_id'' of None \<Rightarrow> Inl (KeyError ''asym_id'') | Some label_asym_id \<Rightarrow>
           case entry ''seq_id'' of None \<Rightarrow> Inl (KeyError ''seq_id'') | Some label_seq_id \<Rightarrow>
             Inr (Some (label_asym_id, label_seq_id))))"

definition dict_get :: "(string \<Rightarrow> string option) \<Rightarrow> string \<Rightarrow> string \<Rightarrow> string" where
  "dict_get d k dflt = (case d k of None \<Rightarrow> dflt | Some v \<Rightarrow> v)"

text \<open>
  The body of \<^verbatim>\<open>for i, res in enumerate(aa_residues)\<close>, for an index below the
  length. The program builds no table for a chain of fewer than four amino-acid
  residues; such a chain has no window of four rows.
\<close>

definition build_row ::
  "(vec \<Rightarrow> vec \<Rightarrow> vec \<Rightarrow> vec \<Rightarrow> real) \<Rightarrow> annotation_table \<Rightarrow> annotation_table \<Rightarrow>
   string \<Rightarrow> residue list \<Rightarrow> nat \<Rightarrow> py_error + feature_row" where
  "build_row cd seqscheme_dict dssp_dict chain aa_residues i =
     (let res = aa_residues ! i in
      case (if i > 0 then compute_phi cd (aa_residues ! (i - 1)) res else Inr 999) of
        Inl e \<Rightarrow> Inl e | Inr phi_v \<Rightarrow>
      case (if i > 0 then compute_omega cd (aa_residues ! (i - 1)) res else Inr 999) of
        Inl e \<Rightarrow> Inl e | Inr omega_v \<Rightarrow>
      case (if i + 1 < length aa_residues then compute_psi cd res (aa_residues ! (i + 1))
            else Inr 999) of
        Inl e \<Rightarrow> Inl e | Inr psi_v \<Rightarrow>
      let resnum_v = seqnum res;
          res3letter = residue_name res;
          res1letter = getres1 res3letter;
          key = (chain, py_str resnum_v)
      in case find_label_key seqscheme_dict key of Inl e \<Rightarrow> Inl e | Inr lkey \<Rightarrow>
         let found = (case lkey of None \<Rightarrow> None | Some k \<Rightarrow> dssp_dict k);
             dssp_value = (case found of None \<Rightarrow> ''.''
                           | Some d \<Rightarrow> dict_get d ''secondary_structure'' ''.'');
             three10_v = (case found of None \<Rightarrow> ''.''
                          | Some d \<Rightarrow> dict_get d ''helix_3_10'' ''.'');
             dssp_value = (if dssp_value = ''.'' then ''C'' else dssp_value)
         in Inr \<lparr>chain_id = chain, resnum = resnum_v, resname = res3letter,
                  res1 = res1letter, omega = omega_v, phi = phi_v, psi = psi_v,
                  dssp_ss = dssp_value, three10 = three10_v, auth_key = key,
                  label_key = lkey, CAcoor = atoms res ''CA''\<rparr>)"

fun build_rows :: "(nat \<Rightarrow> py_error + feature_row) \<Rightarrow> nat list \<Rightarrow> py_error + feature_row list" where
  "build_rows f [] = Inr []"
| "build_rows f (i # rest) =
     (case f i of Inl e \<Rightarrow> Inl e | Inr r \<Rightarrow>
      case build_rows f rest of Inl e \<Rightarrow> Inl e | Inr rs \<Rightarrow> Inr (r # rs))"

definition build_table ::
  "(vec \<Rightarrow> vec \<Rightarrow> vec \<Rightarrow> vec \<Rightarrow> real) \<Rightarrow> annotation_table \<Rightarrow> annotation_table \<Rightarrow>
   string \<Rightarrow> residue list \<Rightarrow> py_error + feature_row list" where
  "build_table cd seqscheme_dict dssp_dict chain aa_residues =
     build_rows (build_row cd seqscheme_dict dssp_dict chain aa_residues)
       [0 ..< length aa_residues]"

section \<open>The window gate\<close>

text \<open>
  The chain of \<^verbatim>\<open>continue\<close> statements at the head of the scan loop, in the order
  of the source. The result names the statement that skipped the window; \<open>None\<close> means
  that the window reaches the classifier. \<^verbatim>\<open>"3" not in three10string\<close> tests a
  one-character substring, which is membership of the character.
\<close>

datatype skip_reason =
  CA1_missing | CA4_missing
  | Is_HGGG | Is_GGGH | Is_GGGG
  | Residue2_regular | Residue3_regular
  | No_three10_marker
  | Omega2_sentinel | Phi2_sentinel | Psi2_sentinel
  | Omega3_sentinel | Phi3_sentinel | Psi3_sentinel | Omega4_sentinel
  | CA1_CA4_too_far

definition window_gate ::
  "feature_row \<Rightarrow> feature_row \<Rightarrow> feature_row \<Rightarrow> feature_row \<Rightarrow> skip_reason option" where
  "window_gate r1 r2 r3 r4 =
     (case CAcoor r1 of None \<Rightarrow> Some CA1_missing | Some vector1 \<Rightarrow>
      case CAcoor r4 of None \<Rightarrow> Some CA4_missing | Some vector4 \<Rightarrow>
      let CA1_CA4_distance = vec_norm (vec_sub vector1 vector4);
          dssp1 = dssp_ss r1; dssp2 = dssp_ss r2; dssp3 = dssp_ss r3; dssp4 = dssp_ss r4;
          dssp_string = dssp1 @ dssp2 @ dssp3 @ dssp4;
          three10string = three10 r1 @ three10 r2 @ three10 r3 @ three10 r4
      in if dssp_string = ''HGGG'' then Some Is_HGGG
         else if dssp_string = ''GGGH'' then Some Is_GGGH
         else if dssp_string = ''GGGG'' then Some Is_GGGG
         else if dssp2 \<in> set [''H'', ''E''] then Some Residue2_regular
         else if dssp3 \<in> set [''H'', ''E''] then Some Residue3_regular
         else if (prefix ''GGG'' dssp_string \<or> suffix ''GGG'' dssp_string)
                 \<and> CHR ''3'' \<notin> set three10string then Some No_three10_marker
         else if omega r2 = 999 then Some Omega2_sentinel
         else if phi r2 = 999 then Some Phi2_sentinel
         else if psi r2 = 999 then Some Psi2_sentinel
         else if omega r3 = 999 then Some Omega3_sentinel
         else if phi r3 = 999 then Some Phi3_sentinel
         else if psi r3 = 999 then Some Psi3_sentinel
         else if omega r4 = 999 then Some Omega4_sentinel
         else if CA1_CA4_distance > 7 then Some CA1_CA4_too_far
         else None)"

text \<open>
  The gate as the specification lists its checks: C-alpha presence, the C-alpha
  distance, the three forbidden strings, the two middle residues, the 3-10 marker, the
  seven dihedrals. This definition follows the words of the specification and is only
  compared with \<open>window_gate\<close>.
\<close>

definition spec_order_gate ::
  "feature_row \<Rightarrow> feature_row \<Rightarrow> feature_row \<Rightarrow> feature_row \<Rightarrow> skip_reason option" where
  "spec_order_gate r1 r2 r3 r4 =
     (case CAcoor r1 of None \<Rightarrow> Some CA1_missing | Some vector1 \<Rightarrow>
      case CAcoor r4 of None \<Rightarrow> Some CA4_missing | Some vector4 \<Rightarrow>
      let S = dssp_ss r1 @ dssp_ss r2 @ dssp_ss r3 @ dssp_ss r4;
          markers = three10 r1 @ three10 r2 @ three10 r3 @ three10 r4
      in if \<not> vec_norm (vec_sub vector1 vector4) \<le> 7 then Some CA1_CA4_too_far
         else if S = ''HGGG'' then Some Is_HGGG
         else if S = ''GGGH'' then Some Is_GGGH
         else if S = ''GGGG'' then Some Is_GGGG
         else if dssp_ss r2 = ''H'' \<or> dssp_ss r2 = ''E'' then Some Residue2_regular
         else if dssp_ss r3 = ''H'' \<or> dssp_ss r3 = ''E'' then Some Residue3_regular
         else if (prefix ''GGG'' S \<or> suffix ''GGG'' S) \<and> CHR ''3'' \<notin> set markers
           then Some No_three10_marker
         else if omega r2 = 999 then Some Omega2_sentinel
         else if phi r2 = 999 then Some Phi2_sentinel
         else if psi r2 = 999 then Some Psi2_sentinel
         else if omega r3 = 999 then Some Omega3_sentinel
         else if phi r3 = 999 then Some Phi3_sentinel
         else if psi r3 = 999 then Some Psi3_sentinel
         else if omega r4 = 999 then Some Omega4_sentinel
         else None)"

section \<open>The scan over the windows\<close>

text \<open>The values printed for one accepted turn.\<close>

record turn_line =
  line_nturns :: nat
  line_chain :: string
  line_resnum1 :: int
  line_resnum4 :: int
  line_seq :: string
  line_dssp_string :: string
  line_minturn :: string
  line_prevname :: string
  line_minD :: real
  line_mintheta :: real
  line_CA1_CA4_distance :: real
  line_angles :: dihedrals
  line_filename :: string

text \<open>
  The variables that live across the iterations of the scan: the counter
  \<^verbatim>\<open>nturns\<close>, the variable \<^verbatim>\<open>minturn\<close> (unbound at first) and the lines
  printed so far.
\<close>

record scan_state =
  nturns :: nat
  minturn :: "string option"
  printed :: "turn_line list"

definition window_dihedrals :: "feature_row \<Rightarrow> feature_row \<Rightarrow> feature_row \<Rightarrow> dihedrals" where
  "window_dihedrals r2 r3 r4 =
     \<lparr>omega2 = omega r2, phi2 = phi r2, psi2 = psi r2,
      omega3 = omega r3, phi3 = phi r3, psi3 = psi r3, omega4 = omega r4\<rparr>"

definition CA1_CA4_distance :: "feature_row \<Rightarrow> feature_row \<Rightarrow> real" where
  "CA1_CA4_distance r1 r4 =
     (case (CAcoor r1, CAcoor r4) of
        (Some vector1, Some vector4) \<Rightarrow> vec_norm (vec_sub vector1 vector4)
      | _ \<Rightarrow> 0)"

text \<open>
  One iteration of the loop over \<open>i\<close>, on the rows \<open>i\<close> to \<open>i + 3\<close>: the gate, the
  loop over the library from \<^verbatim>\<open>minD = 100.0\<close>, and the acceptance test. A skipped
  window leaves the state as it is. The statements of the accepting branch can raise:
  \<^verbatim>\<open>int\<close>, the use of an unbound \<^verbatim>\<open>minturn\<close>, the lookup in the library and
  \<^verbatim>\<open>find_theta_in_degrees\<close>.
\<close>

definition scan_window ::
  "turn_library \<Rightarrow> string \<Rightarrow> string \<Rightarrow>
   feature_row \<Rightarrow> feature_row \<Rightarrow> feature_row \<Rightarrow> feature_row \<Rightarrow>
   scan_state \<Rightarrow> py_error + scan_state" where
  "scan_window turnlibrary shortfilename chain r1 r2 r3 r4 st =
     (case window_gate r1 r2 r3 r4 of
        Some reason \<Rightarrow> Inr st
      | None \<Rightarrow>
          let a = window_dihedrals r2 r3 r4;
              (minD, mt) = nearest_loop turnlibrary a (100, minturn st);
              st1 = st\<lparr>minturn := mt\<rparr>
          in if minD \<le> TURN_DIST_CUTOFF
             then (case py_int (snd (auth_key r1)) of Inl e \<Rightarrow> Inl e | Inr resnum1 \<Rightarrow>
                   case mt of None \<Rightarrow> Inl (NameError ''minturn'') | Some turn \<Rightarrow>
                   case map_of turnlibrary turn of None \<Rightarrow> Inl (KeyError turn) | Some c \<Rightarrow>
                   case find_theta_in_degrees minD of Inl e \<Rightarrow> Inl e | Inr mintheta \<Rightarrow>
                     Inr (st1\<lparr>nturns := nturns st + 1,
                              printed := printed st @
                                [\<lparr>line_nturns = nturns st + 1, line_chain = chain,
                                  line_resnum1 = resnum1, line_resnum4 = resnum1 + 3,
                                  line_seq = res1 r1 @ res1 r2 @ res1 r3 @ res1 r4,
                                  line_dssp_string =
                                    dssp_ss r1 @ dssp_ss r2 @ dssp_ss r3 @ dssp_ss r4,
                                  line_minturn = turn, line_prevname = prev_name c,
                                  line_minD = minD, line_mintheta = mintheta,
                                  line_CA1_CA4_distance = CA1_CA4_distance r1 r4,
                                  line_angles = a, line_filename = shortfilename\<rparr>]\<rparr>))
             else Inr st1)"

text \<open>
  The argument pairs with which the iteration calls \<^verbatim>\<open>angle_distance\<close>: none when
  the gate skips the window, else those of every cluster in turn.
\<close>

definition window_calls ::
  "turn_library \<Rightarrow> feature_row \<Rightarrow> feature_row \<Rightarrow> feature_row \<Rightarrow> feature_row \<Rightarrow> (real \<times> real) list" where
  "window_calls turnlibrary r1 r2 r3 r4 =
     (case window_gate r1 r2 r3 r4 of
        Some reason \<Rightarrow> []
      | None \<Rightarrow> concat (map (\<lambda>(turn, c). cluster_D_calls (window_dihedrals r2 r3 r4) c) turnlibrary))"

text \<open>
  \<^verbatim>\<open>for i in range(len(datadict[chain]) - 3)\<close> over one chain; every index the
  body reads is below the length of the table.
\<close>

fun scan_indices ::
  "turn_library \<Rightarrow> string \<Rightarrow> string \<Rightarrow> feature_row list \<Rightarrow> nat list \<Rightarrow>
   scan_state \<Rightarrow> py_error + scan_state" where
  "scan_indices lib f chain t [] st = Inr st"
| "scan_indices lib f chain t (i # rest) st =
     (case scan_window lib f chain (t ! i) (t ! (i + 1)) (t ! (i + 2)) (t ! (i + 3)) st of
        Inl e \<Rightarrow> Inl e
      | Inr st' \<Rightarrow> scan_indices lib f chain t rest st')"

definition scan_chain ::
  "turn_library \<Rightarrow> string \<Rightarrow> string \<Rightarrow> feature_row list \<Rightarrow> scan_state \<Rightarrow> py_error + scan_state" where
  "scan_chain lib f chain t st = scan_indices lib f chain t [0 ..< length t - 3] st"

section \<open>Sample windows\<close>

text \<open>
  Concrete rows on which the theorems below are instantiated. The rows \<open>ad1\<close> to
  \<open>ad4\<close> form a window whose seven dihedrals are the medoid of the cluster AD.
\<close>

definition sample_row ::
  "int \<Rightarrow> string \<Rightarrow> string \<Rightarrow> real \<Rightarrow> real \<Rightarrow> real \<Rightarrow> vec option \<Rightarrow> feature_row" where
  "sample_row n ss marker om ph ps ca =
     \<lparr>chain_id = ''A'', resnum = n, resname = ''GLY'', res1 = ''G'',
      omega = om, phi = ph, psi = ps, dssp_ss = ss, three10 = marker,
      auth_key = (''A'', py_str n), label_key = None, CAcoor = ca\<rparr>"

definition ad1 :: feature_row where
  "ad1 = sample_row 7 ''C'' ''.'' 999 999 (- 60) (Some (0, 0, 0))"
definition ad2 :: feature_row where
  "ad2 = sample_row 8 ''T'' ''.'' (18488 / 100) (- 6527 / 100) (- 2352 / 100) (Some (3, 0, 0))"
definition ad3 :: feature_row where
  "ad3 = sample_row 9 ''T'' ''.'' (18283 / 100) (- 9873 / 100) (- 1806 / 100) (Some (3, 3, 0))"
definition ad4 :: feature_row where
  "ad4 = sample_row 10 ''C'' ''.'' (18110 / 100) (- 60) 999 (Some (3, 4, 0))"

definition state0 :: scan_state where
  "state0 = \<lparr>nturns = 0, minturn = None, printed = []\<rparr>"

text \<open>
  Windows for the gate. The rows \<open>g1\<close> to \<open>g4\<close> carry the secondary-structure
  string GGGC and the 3-10 markers of a helix of three residues; \<open>g4_far\<close> moves the last
  C-alpha atom away, \<open>g2_unmarked\<close> drops the marker, \<open>g4_helix\<close> and \<open>h1_far\<close>
  give the string HGGG, and \<open>ad3_sentinel\<close> has an undefined omega.
\<close>

definition g1 :: feature_row where
  "g1 = sample_row 21 ''G'' ''>'' 999 999 (- 60) (Some (0, 0, 0))"
definition g2 :: feature_row where
  "g2 = sample_row 22 ''G'' ''3'' (18488 / 100) (- 6527 / 100) (- 2352 / 100) (Some (3, 0, 0))"
definition g3 :: feature_row where
  "g3 = sample_row 23 ''G'' ''<'' (18283 / 100) (- 9873 / 100) (- 1806 / 100) (Some (3, 3, 0))"
definition g4 :: feature_row where
  "g4 = sample_row 24 ''C'' ''.'' (18110 / 100) (- 60) 999 (Some (3, 4, 0))"
definition g4_helix :: feature_row where
  "g4_helix = sample_row 24 ''G'' ''<'' (18110 / 100) (- 60) 999 (Some (3, 4, 0))"
definition g4_far :: feature_row where
  "g4_far = sample_row 24 ''C'' ''.'' (18110 / 100) (- 60) 999 (Some (8, 0, 0))"
definition g2_unmarked :: feature_row where
  "g2_unmarked =
     sample_row 22 ''G'' ''.'' (18488 / 100) (- 6527 / 100) (- 2352 / 100) (Some (3, 0, 0))"
definition ad3_sentinel :: feature_row where
  "ad3_sentinel = sample_row 9 ''T'' ''.'' 999 (- 9873 / 100) (- 1806 / 100) (Some (3, 3, 0))"
definition h1_far :: feature_row where
  "h1_far = sample_row 20 ''H'' ''.'' 999 999 (- 60) (Some (3, 4, 9))"

text \<open>
  A chain of four residues numbered 5 to 8 and a stand-in \<open>sample_cd\<close> for
  \<^verbatim>\<open>calc_dihedral\<close> that reads the angle, in degrees, from the first coordinate of
  its first argument. The coordinates are chosen so that the table assembled from the
  chain, \<open>sample_table\<close>, has the medoid of the cluster Pd in its only window.
\<close>

definition sample_cd :: "vec \<Rightarrow> vec \<Rightarrow> vec \<Rightarrow> vec \<Rightarrow> real" where
  "sample_cd a b c d = radians (fst a)"

definition sample_residue :: "int \<Rightarrow> real \<Rightarrow> real \<Rightarrow> real \<Rightarrow> residue" where
  "sample_residue n xn xca xc =
     \<lparr>seqnum = n, residue_name = ''GLY'',
      atoms = (\<lambda>name. if name = ''N'' then Some (xn, 0, 0)
                      else if name = ''CA'' then Some (xca, 0, 0)
                      else if name = ''C'' then Some (xc, 0, 0)
                      else None)\<rparr>"

definition p1 :: residue where
  "p1 = sample_residue 5 (- 60) (17869 / 100) (- 5528 / 100)"
definition p2 :: residue where
  "p2 = sample_residue 6 (13276 / 100) (17553 / 100) (8238 / 100)"
definition p3 :: residue where
  "p3 = sample_residue 7 (- 288 / 100) (17960 / 100) (- 60)"
definition p4 :: residue where
  "p4 = sample_residue 8 0 (17869 / 100) 0"

definition sample_chain :: "residue list" where
  "sample_chain = [p1, p2, p3, p4]"

definition no_annotation :: annotation_table where
  "no_annotation = (\<lambda>key. None)"

definition s1 :: feature_row where
  "s1 = sample_row 5 ''C'' ''.'' 999 999 (- 60) (Some (17869 / 100, 0, 0))"
definition s2 :: feature_row where
  "s2 = sample_row 6 ''C'' ''.'' (17869 / 100) (- 5528 / 100) (13276 / 100)
          (Some (17553 / 100, 0, 0))"
definition s3 :: feature_row where
  "s3 = sample_row 7 ''C'' ''.'' (17553 / 100) (8238 / 100) (- 288 / 100)
          (Some (17960 / 100, 0, 0))"
definition s4 :: feature_row where
  "s4 = sample_row 8 ''C'' ''.'' (17960 / 100) (- 60) 999 (Some (17869 / 100, 0, 0))"

definition sample_table :: "feature_row list" where
  "sample_table = [s1, s2, s3, s4]"

section \<open>Properties of the angular distance\<close>

lemma angle_distance_eq: "angle_distance a b = 2 * (1 - cos ((a - b) * pi / 180))"
  by (simp add: angle_distance_def radians_def)

lemma angle_distance_nonneg: "0 \<le> angle_distance a b"
  by (simp add: angle_distance_eq)

lemma angle_distance_le_4: "angle_distance a b \<le> 4"
proof -
  have "- 1 \<le> cos ((a - b) * pi / 180)" by (rule cos_ge_minus_one)
  then show ?thesis unfolding angle_distance_eq by argo
qed

lemma angle_distance_refl: "angle_distance a a = 0"
  by (simp add: angle_distance_eq)

text \<open>
  Claim C2. The per-angle distance is symmetric, vanishes on equal angles, is 4 on
  angles 180 degrees apart, and always lies between 0 and 4.
\<close>

theorem angle_distance_metric_facts:
  "angle_distance a b = angle_distance b a
   \<and> angle_distance a a = 0
   \<and> angle_distance a (a + 180) = 4
   \<and> 0 \<le> angle_distance a b \<and> angle_distance a b \<le> 4"
proof -
  have sym: "angle_distance a b = angle_distance b a"
  proof -
    have "(b - a) * pi / 180 = - ((a - b) * pi / 180)" by (simp add: field_simps)
    then have "cos ((b - a) * pi / 180) = cos ((a - b) * pi / 180)"
      by (simp only: cos_minus)
    then show ?thesis by (simp add: angle_distance_eq)
  qed
  have opp: "angle_distance a (a + 180) = 4"
  proof -
    have "(a - (a + 180)) * pi / 180 = - pi" by simp
    then have "cos ((a - (a + 180)) * pi / 180) = - 1"
      by (simp only: cos_minus cos_pi)
    then show ?thesis by (simp only: angle_distance_eq) simp
  qed
  from sym opp show ?thesis
    by (simp add: angle_distance_refl angle_distance_nonneg angle_distance_le_4)
qed

section \<open>Properties of the classifier loop\<close>

lemma cluster_D_nonneg: "0 \<le> cluster_D a c"
  unfolding cluster_D_def
  by (intro divide_nonneg_pos add_nonneg_nonneg angle_distance_nonneg) simp

lemma cluster_D_le_4: "cluster_D a c \<le> 4"
proof -
  have "angle_distance (omega2 a) (medoid_omega2 c) +
      angle_distance (phi2 a) (medoid_phi2 c) +
      angle_distance (psi2 a) (medoid_psi2 c) +
      angle_distance (omega3 a) (medoid_omega3 c) +
      angle_distance (phi3 a) (medoid_phi3 c) +
      angle_distance (psi3 a) (medoid_psi3 c) +
      angle_distance (omega4 a) (medoid_omega4 c) \<le> 4 + 4 + 4 + 4 + 4 + 4 + 4"
    by (intro add_mono angle_distance_le_4)
  then show ?thesis unfolding cluster_D_def by simp
qed

lemma cluster_D_calls_sum:
  "cluster_D a c = (\<Sum>(x, y) \<leftarrow> cluster_D_calls a c. angle_distance x y) / 7"
  by (simp add: cluster_D_def cluster_D_calls_def)

lemma nearest_loop_cases:
  "((\<forall>x \<in> set lib. m \<le> cluster_D a (snd x)) \<and> nearest_loop lib a (m, t) = (m, t))
   \<or> (\<exists>xs turn c ys. lib = xs @ (turn, c) # ys \<and> cluster_D a c < m
         \<and> (\<forall>x \<in> set xs. cluster_D a c < cluster_D a (snd x))
         \<and> (\<forall>y \<in> set ys. cluster_D a c \<le> cluster_D a (snd y))
         \<and> nearest_loop lib a (m, t) = (cluster_D a c, Some turn))"
  (is "?keep lib m t \<or> ?found lib m t")
proof (induction lib arbitrary: m t)
  case Nil
  then show ?case by simp
next
  case (Cons p lib)
  obtain k0 c0 where p: "p = (k0, c0)" by (cases p)
  show ?case
  proof (cases "cluster_D a c0 < m")
    case True
    then have step: "nearest_loop (p # lib) a (m, t) = nearest_loop lib a (cluster_D a c0, Some k0)"
      by (simp add: p)
    from Cons.IH [of "cluster_D a c0" "Some k0"]
    have "?found (p # lib) m t"
    proof
      assume h: "?keep lib (cluster_D a c0) (Some k0)"
      have e: "p # lib = [] @ (k0, c0) # lib" by (simp add: p)
      have r: "nearest_loop (p # lib) a (m, t) = (cluster_D a c0, Some k0)"
        using step h by simp
      have b: "\<forall>x \<in> set []. cluster_D a c0 < cluster_D a (snd x)" by simp
      have h1: "\<forall>y \<in> set lib. cluster_D a c0 \<le> cluster_D a (snd y)" using h by simp
      from e True b h1 r show ?thesis by (intro exI conjI)
    next
      assume "?found lib (cluster_D a c0) (Some k0)"
      then obtain xs turn c ys where d: "lib = xs @ (turn, c) # ys" "cluster_D a c < cluster_D a c0"
         "\<forall>x \<in> set xs. cluster_D a c < cluster_D a (snd x)"
         "\<forall>y \<in> set ys. cluster_D a c \<le> cluster_D a (snd y)"
         "nearest_loop lib a (cluster_D a c0, Some k0) = (cluster_D a c, Some turn)" by blast
      have e: "p # lib = (p # xs) @ (turn, c) # ys" by (simp add: d(1))
      have lt: "cluster_D a c < m" using d(2) True by linarith
      have b: "\<forall>x \<in> set (p # xs). cluster_D a c < cluster_D a (snd x)"
        using d(2,3) by (simp add: p)
      have r: "nearest_loop (p # lib) a (m, t) = (cluster_D a c, Some turn)"
        using step d(5) by simp
      from e lt b d(4) r show ?thesis by (intro exI conjI)
    qed
    then show ?thesis ..
  next
    case False
    then have step: "nearest_loop (p # lib) a (m, t) = nearest_loop lib a (m, t)"
      by (simp add: p)
    from Cons.IH [of m t] show ?thesis
    proof
      assume h: "?keep lib m t"
      have "\<forall>x \<in> set (p # lib). m \<le> cluster_D a (snd x)"
        using h False by (simp add: p)
      moreover have "nearest_loop (p # lib) a (m, t) = (m, t)" using step h by simp
      ultimately show ?thesis by (intro disjI1 conjI)
    next
      assume "?found lib m t"
      then obtain xs turn c ys where d: "lib = xs @ (turn, c) # ys" "cluster_D a c < m"
         "\<forall>x \<in> set xs. cluster_D a c < cluster_D a (snd x)"
         "\<forall>y \<in> set ys. cluster_D a c \<le> cluster_D a (snd y)"
         "nearest_loop lib a (m, t) = (cluster_D a c, Some turn)" by blast
      have e: "p # lib = (p # xs) @ (turn, c) # ys" by (simp add: d(1))
      have b: "\<forall>x \<in> set (p # xs). cluster_D a c < cluster_D a (snd x)"
        using d(2,3) False by (simp add: p)
      have r: "nearest_loop (p # lib) a (m, t) = (cluster_D a c, Some turn)"
        using step d(5) by simp
      from e d(2) b d(4) r have "?found (p # lib) m t" by (intro exI conjI)
      then show ?thesis ..
    qed
  qed
qed

lemma nearest_loop_first_min:
  assumes "lib \<noteq> []"
  shows "\<exists>xs turn c ys. lib = xs @ (turn, c) # ys
         \<and> (\<forall>x \<in> set xs. cluster_D a c < cluster_D a (snd x))
         \<and> (\<forall>y \<in> set ys. cluster_D a c \<le> cluster_D a (snd y))
         \<and> nearest_loop lib a (100, t) = (cluster_D a c, Some turn)"
proof -
  from assms obtain p where p: "p \<in> set lib" by (cases lib) auto
  have "cluster_D a (snd p) \<le> 4" by (rule cluster_D_le_4)
  then have "\<not> (100 \<le> cluster_D a (snd p))" by linarith
  with p have "\<not> (\<forall>x \<in> set lib. 100 \<le> cluster_D a (snd x))" by blast
  with nearest_loop_cases [of lib 100 a t] show ?thesis by blast
qed

lemma library_length: "length define_turn_library = 18"
  by (simp add: define_turn_library_def)

lemma library_keys_distinct: "distinct (map fst define_turn_library)"
  by (simp add: define_turn_library_def)

section \<open>The reporting transform\<close>

lemma find_theta_in_range:
  assumes "0 \<le> D" "D \<le> 4"
  shows "find_theta_in_degrees D = Inr (degrees (arccos (1 - D / 2)))"
proof -
  have "- 1 \<le> 1 - D / 2" "1 - D / 2 \<le> 1" using assms by simp_all
  then have "acos_py (1 - D / 2) = Inr (arccos (1 - D / 2))"
    by (simp add: acos_py_def)
  with assms show ?thesis by (simp add: find_theta_in_degrees_def)
qed

text \<open>
  Claim C6. \<^verbatim>\<open>find_theta_in_degrees\<close> raises exactly when its argument is below 0
  or above 4; on an argument between 0 and 4 it returns the arc cosine of \<open>1 - D / 2\<close>
  in degrees, and the arc cosine does not raise there.
\<close>

theorem find_theta_in_degrees_contract:
  "((\<exists>e. find_theta_in_degrees D = Inl e) \<longleftrightarrow> (D < 0 \<or> D > 4))
   \<and> (0 \<le> D \<and> D \<le> 4 \<longrightarrow>
        find_theta_in_degrees D = Inr (degrees (arccos (1 - D / 2))))"
proof (cases "0 \<le> D \<and> D \<le> 4")
  case True
  then show ?thesis using find_theta_in_range [of D] by auto
next
  case False
  then have "D < 0 \<or> D > 4" by auto
  then show ?thesis by (auto simp: find_theta_in_degrees_def)
qed

theorem find_theta_in_degrees_contract_witness:
  "find_theta_in_degrees 2 = Inr 90
   \<and> find_theta_in_degrees 5 =
       Inl (ValueError ''D must be in the range [0, 4] for a real solution.'')
   \<and> (\<exists>e. find_theta_in_degrees (- 1) = Inl e)"
proof -
  have a: "find_theta_in_degrees 2 = Inr 90"
    using find_theta_in_degrees_contract [of 2] by (simp add: degrees_def)
  have b: "find_theta_in_degrees 5 =
       Inl (ValueError ''D must be in the range [0, 4] for a real solution.'')"
    by (simp add: find_theta_in_degrees_def)
  have c: "\<exists>e. find_theta_in_degrees (- 1) = Inl e"
    using find_theta_in_degrees_contract [of "- 1"] by simp
  from a b c show ?thesis by simp
qed

section \<open>The nearest-centroid decision\<close>

lemma library_nonempty: "define_turn_library \<noteq> []"
  using library_length by auto

lemma library_lookup:
  assumes "define_turn_library = xs @ (turn, c) # ys"
  shows "map_of define_turn_library turn = Some c"
proof -
  have "(turn, c) \<in> set (xs @ (turn, c) # ys)" by simp
  then have "(turn, c) \<in> set define_turn_library" by (simp only: assms)
  then show ?thesis using library_keys_distinct by (simp only: map_of_eq_Some_iff)
qed

lemma cutoff_le_4: "TURN_DIST_CUTOFF \<le> 4"
  by (simp add: TURN_DIST_CUTOFF_def)

lemma scan_window_passed:
  assumes gate: "window_gate r1 r2 r3 r4 = None"
      and loop: "nearest_loop lib (window_dihedrals r2 r3 r4) (100, minturn st) = (D, Some turn)"
  shows "scan_window lib f chain r1 r2 r3 r4 st =
     (if D \<le> TURN_DIST_CUTOFF
      then (case py_int (snd (auth_key r1)) of Inl e \<Rightarrow> Inl e | Inr resnum1 \<Rightarrow>
            case map_of lib turn of None \<Rightarrow> Inl (KeyError turn) | Some c \<Rightarrow>
            case find_theta_in_degrees D of Inl e \<Rightarrow> Inl e | Inr mintheta \<Rightarrow>
              Inr (st\<lparr>minturn := Some turn, nturns := nturns st + 1,
                       printed := printed st @
                         [\<lparr>line_nturns = nturns st + 1, line_chain = chain,
                           line_resnum1 = resnum1, line_resnum4 = resnum1 + 3,
                           line_seq = res1 r1 @ res1 r2 @ res1 r3 @ res1 r4,
                           line_dssp_string =
                             dssp_ss r1 @ dssp_ss r2 @ dssp_ss r3 @ dssp_ss r4,
                           line_minturn = turn, line_prevname = prev_name c,
                           line_minD = D, line_mintheta = mintheta,
                           line_CA1_CA4_distance = CA1_CA4_distance r1 r4,
                           line_angles = window_dihedrals r2 r3 r4,
                           line_filename = f\<rparr>]\<rparr>))
      else Inr (st\<lparr>minturn := Some turn\<rparr>))"
  by (simp add: scan_window_def gate loop split: sum.splits option.splits)

lemma sqrt_25: "sqrt 25 = 5"
  using real_sqrt_abs [of 5] by simp

lemma ad_gate: "window_gate ad1 ad2 ad3 ad4 = None"
  by (simp add: window_gate_def ad1_def ad2_def ad3_def ad4_def sample_row_def sqrt_25
      Let_def suffix_to_prefix)

lemma py_str_7: "py_str 7 = ''7''"
  by code_simp

lemma py_int_7: "py_int ''7'' = Inr 7"
  by code_simp

lemma ad_key: "py_int (snd (auth_key ad1)) = Inr 7"
  by (simp add: ad1_def sample_row_def py_str_7 py_int_7)

text \<open>
  The iteration on a window that passes the gate, in terms of \<open>cluster_D\<close>: the loop
  ends on the first cluster of least score, and the acceptance test decides between
  printing a line and leaving the printed lines as they are.
\<close>

lemma nearest_centroid_scan:
  assumes gate: "window_gate r1 r2 r3 r4 = None"
      and key: "py_int (snd (auth_key r1)) = Inr n"
  shows "length define_turn_library = 18 \<and>
    (\<exists>xs turn c ys.
       define_turn_library = xs @ (turn, c) # ys
       \<and> (\<forall>x \<in> set xs. cluster_D (window_dihedrals r2 r3 r4) c
                           < cluster_D (window_dihedrals r2 r3 r4) (snd x))
       \<and> (\<forall>y \<in> set ys. cluster_D (window_dihedrals r2 r3 r4) c
                           \<le> cluster_D (window_dihedrals r2 r3 r4) (snd y))
       \<and> scan_window define_turn_library f chain r1 r2 r3 r4 st =
           (if cluster_D (window_dihedrals r2 r3 r4) c \<le> TURN_DIST_CUTOFF
            then Inr (st\<lparr>minturn := Some turn, nturns := nturns st + 1,
                   printed := printed st @
                     [\<lparr>line_nturns = nturns st + 1, line_chain = chain,
                       line_resnum1 = n, line_resnum4 = n + 3,
                       line_seq = res1 r1 @ res1 r2 @ res1 r3 @ res1 r4,
                       line_dssp_string = dssp_ss r1 @ dssp_ss r2 @ dssp_ss r3 @ dssp_ss r4,
                       line_minturn = turn, line_prevname = prev_name c,
                       line_minD = cluster_D (window_dihedrals r2 r3 r4) c,
                       line_mintheta =
                         degrees (arccos (1 - cluster_D (window_dihedrals r2 r3 r4) c / 2)),
                       line_CA1_CA4_distance = CA1_CA4_distance r1 r4,
                       line_angles = window_dihedrals r2 r3 r4,
                       line_filename = f\<rparr>]\<rparr>)
            else Inr (st\<lparr>minturn := Some turn\<rparr>)))"
proof -
  let ?a = "window_dihedrals r2 r3 r4"
  from nearest_loop_first_min [OF library_nonempty, of ?a "minturn st"]
  obtain xs turn c ys where d: "define_turn_library = xs @ (turn, c) # ys"
    "\<forall>x \<in> set xs. cluster_D ?a c < cluster_D ?a (snd x)"
    "\<forall>y \<in> set ys. cluster_D ?a c \<le> cluster_D ?a (snd y)"
    "nearest_loop define_turn_library ?a (100, minturn st) = (cluster_D ?a c, Some turn)"
    by blast
  have look: "map_of define_turn_library turn = Some c" by (rule library_lookup [OF d(1)])
  have theta: "cluster_D ?a c \<le> TURN_DIST_CUTOFF \<Longrightarrow>
     find_theta_in_degrees (cluster_D ?a c) = Inr (degrees (arccos (1 - cluster_D ?a c / 2)))"
    using find_theta_in_range [OF cluster_D_nonneg, of ?a c] cutoff_le_4 by simp
  have "scan_window define_turn_library f chain r1 r2 r3 r4 st =
           (if cluster_D ?a c \<le> TURN_DIST_CUTOFF
            then Inr (st\<lparr>minturn := Some turn, nturns := nturns st + 1,
                   printed := printed st @
                     [\<lparr>line_nturns = nturns st + 1, line_chain = chain,
                       line_resnum1 = n, line_resnum4 = n + 3,
                       line_seq = res1 r1 @ res1 r2 @ res1 r3 @ res1 r4,
                       line_dssp_string = dssp_ss r1 @ dssp_ss r2 @ dssp_ss r3 @ dssp_ss r4,
                       line_minturn = turn, line_prevname = prev_name c,
                       line_minD = cluster_D ?a c,
                       line_mintheta = degrees (arccos (1 - cluster_D ?a c / 2)),
                       line_CA1_CA4_distance = CA1_CA4_distance r1 r4,
                       line_angles = ?a,
                       line_filename = f\<rparr>]\<rparr>)
            else Inr (st\<lparr>minturn := Some turn\<rparr>))"
    using theta by (simp add: scan_window_passed [OF gate d(4)] key look)
  with d(1,2,3) library_length show ?thesis by blast
qed

section \<open>Self-consistency of the library\<close>

lemma cos_less_one_degrees:
  assumes "0 < \<bar>x\<bar>" "\<bar>x\<bar> < 360"
  shows "cos (x * pi / 180) < 1"
proof -
  have "cos (x * pi / 180) \<noteq> 1"
  proof
    assume "cos (x * pi / 180) = 1"
    then obtain n :: int where n: "x * pi / 180 = real_of_int n * 2 * pi"
      using cos_one_2pi_int by blast
    then have "x = real_of_int n * 360" by (simp add: field_simps)
    with assms have "0 < \<bar>real_of_int n * 360\<bar>" "\<bar>real_of_int n * 360\<bar> < 360" by simp_all
    then have "0 < \<bar>n\<bar>" "\<bar>n\<bar> < 1" by (simp_all add: abs_mult)
    then show False by linarith
  qed
  moreover have "cos (x * pi / 180) \<le> 1" by (rule cos_le_one)
  ultimately show ?thesis by linarith
qed

lemma angle_distance_pos:
  assumes "0 < \<bar>a - b\<bar>" "\<bar>a - b\<bar> < 360"
  shows "0 < angle_distance a b"
  using cos_less_one_degrees [OF assms] by (simp add: angle_distance_eq)

lemma cluster_D_self: "cluster_D (medoid_dihedrals c) c = 0"
  by (simp add: cluster_D_def medoid_dihedrals_def angle_distance_refl)

lemma cluster_D_pos_phi2:
  assumes "0 < angle_distance (phi2 a) (medoid_phi2 c)"
  shows "0 < cluster_D a c"
proof -
  have "0 < angle_distance (omega2 a) (medoid_omega2 c) +
      angle_distance (phi2 a) (medoid_phi2 c) +
      angle_distance (psi2 a) (medoid_psi2 c) +
      angle_distance (omega3 a) (medoid_omega3 c) +
      angle_distance (phi3 a) (medoid_phi3 c) +
      angle_distance (psi3 a) (medoid_psi3 c) +
      angle_distance (omega4 a) (medoid_omega4 c)"
    by (intro add_pos_nonneg add_nonneg_pos angle_distance_nonneg assms)
  then show ?thesis unfolding cluster_D_def by simp
qed

lemma library_phi2_distinct: "distinct (map (\<lambda>x. medoid_phi2 (snd x)) define_turn_library)"
  by (simp add: define_turn_library_def)

lemma library_phi2_range:
  "\<forall>x \<in> set define_turn_library. - 180 < medoid_phi2 (snd x) \<and> medoid_phi2 (snd x) < 180"
  by (simp add: define_turn_library_def)

lemma library_separated:
  assumes x: "x \<in> set define_turn_library" and y: "y \<in> set define_turn_library"
      and ne: "x \<noteq> y"
  shows "0 < cluster_D (medoid_dihedrals (snd x)) (snd y)"
proof -
  have "inj_on (\<lambda>x. medoid_phi2 (snd x)) (set define_turn_library)"
    using library_phi2_distinct by (simp only: distinct_map)
  with x y ne have d: "medoid_phi2 (snd x) \<noteq> medoid_phi2 (snd y)"
    by (auto dest: inj_onD)
  from x y library_phi2_range
  have "- 180 < medoid_phi2 (snd x)" "medoid_phi2 (snd x) < 180"
       "- 180 < medoid_phi2 (snd y)" "medoid_phi2 (snd y) < 180" by blast+
  with d have "0 < \<bar>medoid_phi2 (snd x) - medoid_phi2 (snd y)\<bar>"
              "\<bar>medoid_phi2 (snd x) - medoid_phi2 (snd y)\<bar> < 360" by linarith+
  then have "0 < angle_distance (medoid_phi2 (snd x)) (medoid_phi2 (snd y))"
    by (rule angle_distance_pos)
  then have "0 < angle_distance (phi2 (medoid_dihedrals (snd x))) (medoid_phi2 (snd y))"
    by (simp add: medoid_dihedrals_def)
  then show ?thesis by (rule cluster_D_pos_phi2)
qed

lemma nearest_loop_medoid:
  assumes kc: "(k, c) \<in> set define_turn_library"
  shows "nearest_loop define_turn_library (medoid_dihedrals c) (100, t) = (0, Some k)"
proof -
  let ?a = "medoid_dihedrals c"
  from nearest_loop_first_min [OF library_nonempty, of ?a t]
  obtain xs turn c' ys where d: "define_turn_library = xs @ (turn, c') # ys"
    "\<forall>x \<in> set xs. cluster_D ?a c' < cluster_D ?a (snd x)"
    "\<forall>y \<in> set ys. cluster_D ?a c' \<le> cluster_D ?a (snd y)"
    "nearest_loop define_turn_library ?a (100, t) = (cluster_D ?a c', Some turn)"
    by blast
  have mem: "(turn, c') \<in> set define_turn_library"
  proof -
    have "(turn, c') \<in> set (xs @ (turn, c') # ys)" by simp
    then show ?thesis by (simp only: d(1))
  qed
  have "set define_turn_library = set xs \<union> {(turn, c')} \<union> set ys"
  proof -
    have "set (xs @ (turn, c') # ys) = set xs \<union> {(turn, c')} \<union> set ys" by simp
    then show ?thesis by (simp only: d(1))
  qed
  with kc have "(k, c) \<in> set xs \<or> (k, c) = (turn, c') \<or> (k, c) \<in> set ys" by blast
  then have le: "cluster_D ?a c' \<le> cluster_D ?a c"
  proof (elim disjE)
    assume "(k, c) \<in> set xs"
    with d(2) have "cluster_D ?a c' < cluster_D ?a (snd (k, c))" by blast
    then show ?thesis by simp
  next
    assume "(k, c) = (turn, c')"
    then show ?thesis by simp
  next
    assume "(k, c) \<in> set ys"
    with d(3) have "cluster_D ?a c' \<le> cluster_D ?a (snd (k, c))" by blast
    then show ?thesis by simp
  qed
  have zero: "cluster_D ?a c' = 0"
    using le cluster_D_self [of c] cluster_D_nonneg [of ?a c'] by linarith
  have "(turn, c') = (k, c)"
  proof (rule ccontr)
    assume "(turn, c') \<noteq> (k, c)"
    then have "(k, c) \<noteq> (turn, c')" by blast
    from library_separated [OF kc mem this] zero show False by simp
  qed
  with d(4) zero show ?thesis by simp
qed

text \<open>
  Claim C8. For each of the 18 clusters of the library, the mean distance of its own
  medoid angles to the cluster is 0, every cluster with another type code is at a
  positive mean distance from them, and the classifier loop selects the cluster itself.
\<close>

theorem library_self_consistent:
  "length define_turn_library = 18 \<and>
   (\<forall>(k, c) \<in> set define_turn_library.
      cluster_D (medoid_dihedrals c) c = 0
      \<and> nearest_loop define_turn_library (medoid_dihedrals c) (100, t) = (0, Some k)
      \<and> (\<forall>(k', c') \<in> set define_turn_library.
            k' \<noteq> k \<longrightarrow> 0 < cluster_D (medoid_dihedrals c) c'))"
proof -
  have "cluster_D (medoid_dihedrals c) c = 0
      \<and> nearest_loop define_turn_library (medoid_dihedrals c) (100, t) = (0, Some k)
      \<and> (\<forall>(k', c') \<in> set define_turn_library.
            k' \<noteq> k \<longrightarrow> 0 < cluster_D (medoid_dihedrals c) c')"
    if kc: "(k, c) \<in> set define_turn_library" for k c
  proof -
    have "0 < cluster_D (medoid_dihedrals c) c'"
      if "(k', c') \<in> set define_turn_library" "k' \<noteq> k" for k' c'
    proof -
      from that(2) have "(k, c) \<noteq> (k', c')" by simp
      from library_separated [OF kc that(1) this] show ?thesis by simp
    qed
    then have "\<forall>(k', c') \<in> set define_turn_library.
            k' \<noteq> k \<longrightarrow> 0 < cluster_D (medoid_dihedrals c) c'" by blast
    with cluster_D_self [of c] nearest_loop_medoid [OF kc, of t] show ?thesis by simp
  qed
  then show ?thesis using library_length by blast
qed

theorem library_self_consistent_witness:
  "fst (hd define_turn_library) = ''AD'' \<and>
   cluster_D (medoid_dihedrals (snd (hd define_turn_library))) (snd (hd define_turn_library)) = 0 \<and>
   nearest_loop define_turn_library (medoid_dihedrals (snd (hd define_turn_library))) (100, None)
     = (0, Some ''AD'')"
proof -
  have k: "fst (hd define_turn_library) = ''AD''" by (simp add: define_turn_library_def)
  have "hd define_turn_library \<in> set define_turn_library"
    using library_nonempty by simp
  then have "(''AD'', snd (hd define_turn_library)) \<in> set define_turn_library"
    using k by (metis prod.collapse)
  with library_self_consistent [of None] show ?thesis using k by blast
qed

section \<open>The accepted distance and the reporting transform\<close>

lemma nearest_loop_nonneg:
  "0 \<le> m \<Longrightarrow> 0 \<le> fst (nearest_loop lib a (m, t))"
proof (induction lib arbitrary: m t)
  case Nil
  then show ?case by simp
next
  case (Cons p lib)
  obtain k c where p: "p = (k, c)" by (cases p)
  show ?case
  proof (cases "cluster_D a c < m")
    case True
    then have "nearest_loop (p # lib) a (m, t) = nearest_loop lib a (cluster_D a c, Some k)"
      by (simp add: p)
    with Cons.IH [OF cluster_D_nonneg, of a c "Some k"] show ?thesis by simp
  next
    case False
    then have "nearest_loop (p # lib) a (m, t) = nearest_loop lib a (m, t)"
      by (simp add: p)
    with Cons.IH [OF Cons.prems, of t] show ?thesis by simp
  qed
qed

lemma accepted_theta:
  assumes "fst (nearest_loop lib a (100, t)) \<le> TURN_DIST_CUTOFF"
  shows "find_theta_in_degrees (fst (nearest_loop lib a (100, t))) =
           Inr (degrees (arccos (1 - fst (nearest_loop lib a (100, t)) / 2)))"
proof -
  have "0 \<le> fst (nearest_loop lib a (100, t))" by (rule nearest_loop_nonneg) simp
  moreover have "fst (nearest_loop lib a (100, t)) \<le> 4" using assms cutoff_le_4 by linarith
  ultimately show ?thesis by (rule find_theta_in_range)
qed

lemma py_int_error:
  "py_int s = Inl e \<Longrightarrow> e = ValueError ''invalid literal for int() with base 10''"
  by (auto simp: py_int_def split: if_splits)

lemma scan_window_error:
  assumes "scan_window lib f chain r1 r2 r3 r4 st = Inl e"
  shows "e = ValueError ''invalid literal for int() with base 10''
         \<or> e = NameError ''minturn'' \<or> (\<exists>turn. e = KeyError turn)"
proof (cases "window_gate r1 r2 r3 r4")
  case (Some reason)
  with assms show ?thesis by (simp add: scan_window_def)
next
  case None
  obtain minD mt where loop: "nearest_loop lib (window_dihedrals r2 r3 r4) (100, minturn st) = (minD, mt)"
    by (cases "nearest_loop lib (window_dihedrals r2 r3 r4) (100, minturn st)")
  show ?thesis
  proof (cases "minD \<le> TURN_DIST_CUTOFF")
    case False
    with assms None loop show ?thesis by (simp add: scan_window_def)
  next
    case True
    have "fst (nearest_loop lib (window_dihedrals r2 r3 r4) (100, minturn st)) = minD"
      by (simp add: loop)
    with accepted_theta [of lib "window_dihedrals r2 r3 r4" "minturn st"] True
    have theta: "find_theta_in_degrees minD = Inr (degrees (arccos (1 - minD / 2)))" by simp
    from assms None loop True theta show ?thesis
      by (auto simp: scan_window_def split: sum.splits option.splits dest: py_int_error)
  qed
qed

lemma scan_indices_error:
  "scan_indices lib f chain tbl is st = Inl e \<Longrightarrow>
     e = ValueError ''invalid literal for int() with base 10''
     \<or> e = NameError ''minturn'' \<or> (\<exists>turn. e = KeyError turn)"
proof (induction "is" arbitrary: st)
  case Nil
  then show ?case by simp
next
  case (Cons i rest)
  show ?case
  proof (cases "scan_window lib f chain (tbl ! i) (tbl ! (i + 1)) (tbl ! (i + 2)) (tbl ! (i + 3)) st")
    case (Inl e')
    with Cons.prems have "e' = e" by simp
    with Inl scan_window_error show ?thesis by blast
  next
    case (Inr st')
    with Cons.prems have "scan_indices lib f chain tbl rest st' = Inl e" by simp
    then show ?thesis by (rule Cons.IH)
  qed
qed

lemma ad_window_is_medoid:
  "window_dihedrals ad2 ad3 ad4 = medoid_dihedrals (snd (hd define_turn_library))"
  by (simp add: window_dihedrals_def medoid_dihedrals_def ad2_def ad3_def ad4_def
      sample_row_def define_turn_library_def)

lemma ad_window_nearest:
  "nearest_loop define_turn_library (window_dihedrals ad2 ad3 ad4) (100, t) = (0, Some ''AD'')"
proof -
  have k: "fst (hd define_turn_library) = ''AD''" by (simp add: define_turn_library_def)
  have "hd define_turn_library \<in> set define_turn_library"
    using library_nonempty by simp
  then have "(''AD'', snd (hd define_turn_library)) \<in> set define_turn_library"
    using k by (metis prod.collapse)
  from nearest_loop_medoid [OF this, of t] show ?thesis
    by (simp only: ad_window_is_medoid)
qed

text \<open>
  Claim C10. Every mean distance lies between 0 and 4, so the value of
  \<^verbatim>\<open>minD\<close> after the loop is not negative; when the acceptance test holds it lies
  between 0 and 0.2359, inside the domain of \<^verbatim>\<open>find_theta_in_degrees\<close>, which
  then returns without raising. Neither one window nor the scan of a chain ends in the
  \<^verbatim>\<open>ValueError\<close> of the reporting transform or of the arc cosine.
\<close>

theorem accepted_distance_in_domain:
  "(\<forall>x \<in> set lib. 0 \<le> cluster_D a (snd x) \<and> cluster_D a (snd x) \<le> 4)
   \<and> (fst (nearest_loop lib a (100, t)) \<le> TURN_DIST_CUTOFF \<longrightarrow>
        0 \<le> fst (nearest_loop lib a (100, t))
        \<and> fst (nearest_loop lib a (100, t)) \<le> 2359 / 10000
        \<and> fst (nearest_loop lib a (100, t)) \<le> 4
        \<and> find_theta_in_degrees (fst (nearest_loop lib a (100, t))) =
            Inr (degrees (arccos (1 - fst (nearest_loop lib a (100, t)) / 2))))
   \<and> scan_window lib f chain r1 r2 r3 r4 st \<noteq>
        Inl (ValueError ''D must be in the range [0, 4] for a real solution.'')
   \<and> scan_window lib f chain r1 r2 r3 r4 st \<noteq> Inl (ValueError ''math domain error'')
   \<and> scan_chain lib f chain tbl st \<noteq>
        Inl (ValueError ''D must be in the range [0, 4] for a real solution.'')
   \<and> scan_chain lib f chain tbl st \<noteq> Inl (ValueError ''math domain error'')"
proof -
  have bounds: "\<forall>x \<in> set lib. 0 \<le> cluster_D a (snd x) \<and> cluster_D a (snd x) \<le> 4"
    by (simp add: cluster_D_nonneg cluster_D_le_4)
  have nonneg: "0 \<le> fst (nearest_loop lib a (100, t))"
    by (rule nearest_loop_nonneg) simp
  have acc: "fst (nearest_loop lib a (100, t)) \<le> TURN_DIST_CUTOFF \<longrightarrow>
        0 \<le> fst (nearest_loop lib a (100, t))
        \<and> fst (nearest_loop lib a (100, t)) \<le> 2359 / 10000
        \<and> fst (nearest_loop lib a (100, t)) \<le> 4
        \<and> find_theta_in_degrees (fst (nearest_loop lib a (100, t))) =
            Inr (degrees (arccos (1 - fst (nearest_loop lib a (100, t)) / 2)))"
  proof
    assume h: "fst (nearest_loop lib a (100, t)) \<le> TURN_DIST_CUTOFF"
    then have "fst (nearest_loop lib a (100, t)) \<le> 2359 / 10000"
      by (simp add: TURN_DIST_CUTOFF_def)
    moreover from h cutoff_le_4 have "fst (nearest_loop lib a (100, t)) \<le> 4" by linarith
    ultimately show "0 \<le> fst (nearest_loop lib a (100, t))
        \<and> fst (nearest_loop lib a (100, t)) \<le> 2359 / 10000
        \<and> fst (nearest_loop lib a (100, t)) \<le> 4
        \<and> find_theta_in_degrees (fst (nearest_loop lib a (100, t))) =
            Inr (degrees (arccos (1 - fst (nearest_loop lib a (100, t)) / 2)))"
      using nonneg accepted_theta [OF h] by simp
  qed
  have w1: "scan_window lib f chain r1 r2 r3 r4 st \<noteq>
        Inl (ValueError ''D must be in the range [0, 4] for a real solution.'')"
    using scan_window_error [of lib f chain r1 r2 r3 r4 st] by fastforce
  have w2: "scan_window lib f chain r1 r2 r3 r4 st \<noteq> Inl (ValueError ''math domain error'')"
    using scan_window_error [of lib f chain r1 r2 r3 r4 st] by fastforce
  have c1: "scan_chain lib f chain tbl st \<noteq>
        Inl (ValueError ''D must be in the range [0, 4] for a real solution.'')"
    unfolding scan_chain_def
    using scan_indices_error [of lib f chain tbl "[0 ..< length tbl - 3]" st] by fastforce
  have c2: "scan_chain lib f chain tbl st \<noteq> Inl (ValueError ''math domain error'')"
    unfolding scan_chain_def
    using scan_indices_error [of lib f chain tbl "[0 ..< length tbl - 3]" st] by fastforce
  from bounds acc w1 w2 c1 c2 show ?thesis by (intro conjI)
qed

theorem accepted_distance_in_domain_witness:
  "fst (nearest_loop define_turn_library (window_dihedrals ad2 ad3 ad4) (100, None))
     \<le> TURN_DIST_CUTOFF
   \<and> find_theta_in_degrees
        (fst (nearest_loop define_turn_library (window_dihedrals ad2 ad3 ad4) (100, None))) = Inr 0
   \<and> scan_window define_turn_library ''1abc'' ''A'' ad1 ad2 ad3 ad4 state0 \<noteq>
        Inl (ValueError ''D must be in the range [0, 4] for a real solution.'')"
proof -
  have z: "fst (nearest_loop define_turn_library (window_dihedrals ad2 ad3 ad4) (100, None)) = 0"
    by (simp add: ad_window_nearest)
  then have le: "fst (nearest_loop define_turn_library (window_dihedrals ad2 ad3 ad4) (100, None))
     \<le> TURN_DIST_CUTOFF" by (simp add: TURN_DIST_CUTOFF_def)
  from accepted_distance_in_domain
    [of define_turn_library "window_dihedrals ad2 ad3 ad4" None "''1abc''" "''A''"
        ad1 ad2 ad3 ad4 state0 "[]"] le z
  show ?thesis by (simp add: degrees_def)
qed

section \<open>Properties of the window gate\<close>

lemma window_gate_passed:
  assumes "window_gate r1 r2 r3 r4 = None"
  shows "(\<exists>vector1 vector4. CAcoor r1 = Some vector1 \<and> CAcoor r4 = Some vector4
         \<and> vec_norm (vec_sub vector1 vector4) \<le> 7)
     \<and> dssp_ss r1 @ dssp_ss r2 @ dssp_ss r3 @ dssp_ss r4 \<notin> set [''HGGG'', ''GGGH'', ''GGGG'']
     \<and> dssp_ss r2 \<notin> set [''H'', ''E''] \<and> dssp_ss r3 \<notin> set [''H'', ''E'']
     \<and> ((prefix ''GGG'' (dssp_ss r1 @ dssp_ss r2 @ dssp_ss r3 @ dssp_ss r4)
          \<or> suffix ''GGG'' (dssp_ss r1 @ dssp_ss r2 @ dssp_ss r3 @ dssp_ss r4))
         \<longrightarrow> CHR ''3'' \<in> set (three10 r1 @ three10 r2 @ three10 r3 @ three10 r4))
     \<and> omega r2 \<noteq> 999 \<and> phi r2 \<noteq> 999 \<and> psi r2 \<noteq> 999
     \<and> omega r3 \<noteq> 999 \<and> phi r3 \<noteq> 999 \<and> psi r3 \<noteq> 999 \<and> omega r4 \<noteq> 999"
proof -
  from assms obtain vector1 where v1: "CAcoor r1 = Some vector1"
    by (cases "CAcoor r1") (simp_all add: window_gate_def)
  from assms v1 obtain vector4 where v4: "CAcoor r4 = Some vector4"
    by (cases "CAcoor r4") (simp_all add: window_gate_def)
  from assms show ?thesis
    unfolding window_gate_def Let_def v1 v4 option.case
    by (simp split: if_splits) blast
qed

lemma window_gate_passing:
  assumes "CAcoor r1 = Some vector1" "CAcoor r4 = Some vector4"
      and "vec_norm (vec_sub vector1 vector4) \<le> 7"
      and "dssp_ss r1 @ dssp_ss r2 @ dssp_ss r3 @ dssp_ss r4 \<notin> set [''HGGG'', ''GGGH'', ''GGGG'']"
      and "dssp_ss r2 \<notin> set [''H'', ''E'']" "dssp_ss r3 \<notin> set [''H'', ''E'']"
      and "(prefix ''GGG'' (dssp_ss r1 @ dssp_ss r2 @ dssp_ss r3 @ dssp_ss r4)
          \<or> suffix ''GGG'' (dssp_ss r1 @ dssp_ss r2 @ dssp_ss r3 @ dssp_ss r4))
         \<longrightarrow> CHR ''3'' \<in> set (three10 r1 @ three10 r2 @ three10 r3 @ three10 r4)"
      and "omega r2 \<noteq> 999" "phi r2 \<noteq> 999" "psi r2 \<noteq> 999"
      and "omega r3 \<noteq> 999" "phi r3 \<noteq> 999" "psi r3 \<noteq> 999" "omega r4 \<noteq> 999"
  shows "window_gate r1 r2 r3 r4 = None"
  using assms unfolding window_gate_def Let_def by auto

lemma spec_order_gate_passed:
  assumes "spec_order_gate r1 r2 r3 r4 = None"
  shows "(\<exists>vector1 vector4. CAcoor r1 = Some vector1 \<and> CAcoor r4 = Some vector4
         \<and> vec_norm (vec_sub vector1 vector4) \<le> 7)
     \<and> dssp_ss r1 @ dssp_ss r2 @ dssp_ss r3 @ dssp_ss r4 \<notin> set [''HGGG'', ''GGGH'', ''GGGG'']
     \<and> dssp_ss r2 \<notin> set [''H'', ''E''] \<and> dssp_ss r3 \<notin> set [''H'', ''E'']
     \<and> ((prefix ''GGG'' (dssp_ss r1 @ dssp_ss r2 @ dssp_ss r3 @ dssp_ss r4)
          \<or> suffix ''GGG'' (dssp_ss r1 @ dssp_ss r2 @ dssp_ss r3 @ dssp_ss r4))
         \<longrightarrow> CHR ''3'' \<in> set (three10 r1 @ three10 r2 @ three10 r3 @ three10 r4))
     \<and> omega r2 \<noteq> 999 \<and> phi r2 \<noteq> 999 \<and> psi r2 \<noteq> 999
     \<and> omega r3 \<noteq> 999 \<and> phi r3 \<noteq> 999 \<and> psi r3 \<noteq> 999 \<and> omega r4 \<noteq> 999"
proof -
  from assms obtain vector1 where v1: "CAcoor r1 = Some vector1"
    by (cases "CAcoor r1") (simp_all add: spec_order_gate_def)
  from assms v1 obtain vector4 where v4: "CAcoor r4 = Some vector4"
    by (cases "CAcoor r4") (simp_all add: spec_order_gate_def)
  from assms show ?thesis
    unfolding spec_order_gate_def Let_def v1 v4 option.case
    by (simp split: if_splits) blast
qed

lemma spec_order_gate_passing:
  assumes "CAcoor r1 = Some vector1" "CAcoor r4 = Some vector4"
      and "vec_norm (vec_sub vector1 vector4) \<le> 7"
      and "dssp_ss r1 @ dssp_ss r2 @ dssp_ss r3 @ dssp_ss r4 \<notin> set [''HGGG'', ''GGGH'', ''GGGG'']"
      and "dssp_ss r2 \<notin> set [''H'', ''E'']" "dssp_ss r3 \<notin> set [''H'', ''E'']"
      and "(prefix ''GGG'' (dssp_ss r1 @ dssp_ss r2 @ dssp_ss r3 @ dssp_ss r4)
          \<or> suffix ''GGG'' (dssp_ss r1 @ dssp_ss r2 @ dssp_ss r3 @ dssp_ss r4))
         \<longrightarrow> CHR ''3'' \<in> set (three10 r1 @ three10 r2 @ three10 r3 @ three10 r4)"
      and "omega r2 \<noteq> 999" "phi r2 \<noteq> 999" "psi r2 \<noteq> 999"
      and "omega r3 \<noteq> 999" "phi r3 \<noteq> 999" "psi r3 \<noteq> 999" "omega r4 \<noteq> 999"
  shows "spec_order_gate r1 r2 r3 r4 = None"
  using assms unfolding spec_order_gate_def Let_def by auto

lemma sqrt_64: "sqrt 64 = 8"
  using real_sqrt_abs [of 8] by simp

lemma sqrt_81: "sqrt 81 = 9"
  using real_sqrt_abs [of 9] by simp

lemma far_helix_window_reasons:
  "window_gate h1_far g2 g3 g4_helix = Some Is_HGGG
   \<and> spec_order_gate h1_far g2 g3 g4_helix = Some CA1_CA4_too_far"
  by (simp add: window_gate_def spec_order_gate_def h1_far_def g2_def g3_def g4_helix_def
      sample_row_def Let_def sqrt_81 suffix_to_prefix)

text \<open>
  Claim C3. The gate with its checks in the order of the specification (the C-alpha
  distance second) accepts a window exactly when the gate of the program (the C-alpha
  distance last) accepts it; the two can differ only in which check reports the
  rejection.
\<close>

theorem gate_order_independent:
  "(spec_order_gate r1 r2 r3 r4 = None) = (window_gate r1 r2 r3 r4 = None)"
proof
  assume "spec_order_gate r1 r2 r3 r4 = None"
  from spec_order_gate_passed [OF this] show "window_gate r1 r2 r3 r4 = None"
    by (elim conjE exE) (rule window_gate_passing)
next
  assume "window_gate r1 r2 r3 r4 = None"
  from window_gate_passed [OF this] show "spec_order_gate r1 r2 r3 r4 = None"
    by (elim conjE exE) (rule spec_order_gate_passing)
qed

theorem gate_order_independent_witness:
  "spec_order_gate ad1 ad2 ad3 ad4 = None
   \<and> spec_order_gate h1_far g2 g3 g4_helix \<noteq> None \<and> window_gate h1_far g2 g3 g4_helix \<noteq> None
   \<and> spec_order_gate h1_far g2 g3 g4_helix \<noteq> window_gate h1_far g2 g3 g4_helix"
proof -
  have a: "spec_order_gate ad1 ad2 ad3 ad4 = None"
    using gate_order_independent [of ad1 ad2 ad3 ad4] ad_gate by simp
  have b: "window_gate h1_far g2 g3 g4_helix \<noteq> None"
    using far_helix_window_reasons by simp
  then have c: "spec_order_gate h1_far g2 g3 g4_helix \<noteq> None"
    using gate_order_independent [of h1_far g2 g3 g4_helix] by simp
  from a b c far_helix_window_reasons show ?thesis by simp
qed

lemma marked_window_gate: "window_gate g1 g2 g3 g4 = None"
  by (simp add: window_gate_def g1_def g2_def g3_def g4_def sample_row_def Let_def
      sqrt_25 suffix_to_prefix)

lemma far_marked_window_gate: "window_gate g1 g2 g3 g4_far = Some CA1_CA4_too_far"
  by (simp add: window_gate_def g1_def g2_def g3_def g4_far_def sample_row_def Let_def
      sqrt_64 suffix_to_prefix)

lemma marked_window_strings:
  "dssp_ss g1 @ dssp_ss g2 @ dssp_ss g3 @ dssp_ss g4 = ''GGGC''
   \<and> three10 g1 @ three10 g2 @ three10 g3 @ three10 g4 = ''>3<.''
   \<and> dssp_ss g1 @ dssp_ss g2 @ dssp_ss g3 @ dssp_ss g4_far = ''GGGC''
   \<and> three10 g1 @ three10 g2 @ three10 g3 @ three10 g4_far = ''>3<.''
   \<and> dssp_ss g1 @ dssp_ss g2_unmarked @ dssp_ss g3 @ dssp_ss g4 = ''GGGC''
   \<and> three10 g1 @ three10 g2_unmarked @ three10 g3 @ three10 g4 = ''>.<.''"
  by (simp add: g1_def g2_def g3_def g4_def g4_far_def g2_unmarked_def sample_row_def)

text \<open>
  Claim C4, as stated, fails: the window \<open>g1 g2 g3 g4_far\<close> has the
  secondary-structure string GGGC, which is none of the three strings rejected outright,
  and the character 3 among its markers, yet the gate rejects it, because its first and
  last C-alpha atoms are 8 apart.
\<close>

theorem three10_marker_claim_counterexample:
  "\<not> ((prefix ''GGG'' (dssp_ss g1 @ dssp_ss g2 @ dssp_ss g3 @ dssp_ss g4_far)
         \<or> suffix ''GGG'' (dssp_ss g1 @ dssp_ss g2 @ dssp_ss g3 @ dssp_ss g4_far))
        \<and> dssp_ss g1 @ dssp_ss g2 @ dssp_ss g3 @ dssp_ss g4_far
              \<notin> set [''HGGG'', ''GGGH'', ''GGGG'']
      \<longrightarrow> (window_gate g1 g2 g3 g4_far = None
            \<longleftrightarrow> CHR ''3'' \<in> set (three10 g1 @ three10 g2 @ three10 g3 @ three10 g4_far)))"
  by (simp add: marked_window_strings far_marked_window_gate)

text \<open>
  Claim C4, amended. For a window whose secondary-structure string starts or ends with
  GGG: when the character 3 occurs nowhere in the concatenation of the four marker
  fields, the window is rejected; and the window reaches the classifier exactly when
  the character occurs there and the other checks of the gate pass as well (both
  C-alpha atoms present and at most 7 apart, the string none of HGGG, GGGH and GGGG, the
  two middle residues neither H nor E, and none of the seven dihedrals the sentinel).
\<close>

theorem three10_marker_rule:
  assumes "prefix ''GGG'' (dssp_ss r1 @ dssp_ss r2 @ dssp_ss r3 @ dssp_ss r4)
           \<or> suffix ''GGG'' (dssp_ss r1 @ dssp_ss r2 @ dssp_ss r3 @ dssp_ss r4)"
  shows "(CHR ''3'' \<notin> set (three10 r1 @ three10 r2 @ three10 r3 @ three10 r4)
            \<longrightarrow> window_gate r1 r2 r3 r4 \<noteq> None)
     \<and> (window_gate r1 r2 r3 r4 = None \<longleftrightarrow>
          CHR ''3'' \<in> set (three10 r1 @ three10 r2 @ three10 r3 @ three10 r4)
          \<and> (\<exists>vector1 vector4. CAcoor r1 = Some vector1 \<and> CAcoor r4 = Some vector4
                \<and> vec_norm (vec_sub vector1 vector4) \<le> 7)
          \<and> dssp_ss r1 @ dssp_ss r2 @ dssp_ss r3 @ dssp_ss r4
                \<notin> set [''HGGG'', ''GGGH'', ''GGGG'']
          \<and> dssp_ss r2 \<notin> set [''H'', ''E''] \<and> dssp_ss r3 \<notin> set [''H'', ''E'']
          \<and> omega r2 \<noteq> 999 \<and> phi r2 \<noteq> 999 \<and> psi r2 \<noteq> 999
          \<and> omega r3 \<noteq> 999 \<and> phi r3 \<noteq> 999 \<and> psi r3 \<noteq> 999 \<and> omega r4 \<noteq> 999)"
proof -
  let ?marked = "CHR ''3'' \<in> set (three10 r1 @ three10 r2 @ three10 r3 @ three10 r4)"
  let ?others = "(\<exists>vector1 vector4. CAcoor r1 = Some vector1 \<and> CAcoor r4 = Some vector4
                \<and> vec_norm (vec_sub vector1 vector4) \<le> 7)
          \<and> dssp_ss r1 @ dssp_ss r2 @ dssp_ss r3 @ dssp_ss r4
                \<notin> set [''HGGG'', ''GGGH'', ''GGGG'']
          \<and> dssp_ss r2 \<notin> set [''H'', ''E''] \<and> dssp_ss r3 \<notin> set [''H'', ''E'']
          \<and> omega r2 \<noteq> 999 \<and> phi r2 \<noteq> 999 \<and> psi r2 \<noteq> 999
          \<and> omega r3 \<noteq> 999 \<and> phi r3 \<noteq> 999 \<and> psi r3 \<noteq> 999 \<and> omega r4 \<noteq> 999"
  have fwd: "?marked \<and> ?others" if "window_gate r1 r2 r3 r4 = None"
    using window_gate_passed [OF that] assms by blast
  have bwd: "window_gate r1 r2 r3 r4 = None" if h: "?marked \<and> ?others"
  proof -
    from h obtain vector1 vector4 where v: "CAcoor r1 = Some vector1" "CAcoor r4 = Some vector4"
      "vec_norm (vec_sub vector1 vector4) \<le> 7" by blast
    from h have m: "(prefix ''GGG'' (dssp_ss r1 @ dssp_ss r2 @ dssp_ss r3 @ dssp_ss r4)
          \<or> suffix ''GGG'' (dssp_ss r1 @ dssp_ss r2 @ dssp_ss r3 @ dssp_ss r4))
         \<longrightarrow> CHR ''3'' \<in> set (three10 r1 @ three10 r2 @ three10 r3 @ three10 r4)" by blast
    from h have o: "dssp_ss r1 @ dssp_ss r2 @ dssp_ss r3 @ dssp_ss r4
                \<notin> set [''HGGG'', ''GGGH'', ''GGGG'']"
      "dssp_ss r2 \<notin> set [''H'', ''E'']" "dssp_ss r3 \<notin> set [''H'', ''E'']"
      "omega r2 \<noteq> 999" "phi r2 \<noteq> 999" "psi r2 \<noteq> 999"
      "omega r3 \<noteq> 999" "phi r3 \<noteq> 999" "psi r3 \<noteq> 999" "omega r4 \<noteq> 999" by blast+
    show ?thesis by (rule window_gate_passing [OF v o(1-3) m o(4-10)])
  qed
  have rej: "window_gate r1 r2 r3 r4 \<noteq> None" if "\<not> ?marked"
    using fwd that by blast
  from fwd bwd rej show ?thesis by blast
qed

theorem three10_marker_rule_witness:
  "prefix ''GGG'' ''GGGC'' \<and> window_gate g1 g2 g3 g4 = None
   \<and> CHR ''3'' \<in> set ''>3<.''
   \<and> CHR ''3'' \<notin> set ''>.<.'' \<and> window_gate g1 g2_unmarked g3 g4 \<noteq> None"
proof -
  have p: "prefix ''GGG'' ''GGGC''" by simp
  have p1: "prefix ''GGG'' (dssp_ss g1 @ dssp_ss g2 @ dssp_ss g3 @ dssp_ss g4)
           \<or> suffix ''GGG'' (dssp_ss g1 @ dssp_ss g2 @ dssp_ss g3 @ dssp_ss g4)"
    by (simp add: marked_window_strings)
  have p2: "prefix ''GGG'' (dssp_ss g1 @ dssp_ss g2_unmarked @ dssp_ss g3 @ dssp_ss g4)
           \<or> suffix ''GGG'' (dssp_ss g1 @ dssp_ss g2_unmarked @ dssp_ss g3 @ dssp_ss g4)"
    by (simp add: marked_window_strings)
  have a: "CHR ''3'' \<in> set ''>3<.''" by simp
  have b: "CHR ''3'' \<notin> set ''>.<.''" by simp
  have c: "window_gate g1 g2_unmarked g3 g4 \<noteq> None"
    using three10_marker_rule [OF p2] b by (simp add: marked_window_strings)
  have d: "window_gate g1 g2 g3 g4 = None"
    using three10_marker_rule [OF p1] a
    by (simp add: marked_window_strings g1_def g2_def g3_def g4_def sample_row_def sqrt_25)
  from p a b c d show ?thesis by simp
qed

lemma window_calls_first_args:
  assumes "p \<in> set (window_calls lib r1 r2 r3 r4)"
  shows "fst p \<in> {omega r2, phi r2, psi r2, omega r3, phi r3, psi r3, omega r4}
         \<and> window_gate r1 r2 r3 r4 = None"
proof (cases "window_gate r1 r2 r3 r4")
  case (Some reason)
  with assms show ?thesis by (simp add: window_calls_def)
next
  case None
  with assms obtain x where "x \<in> set lib"
    "p \<in> set (cluster_D_calls (window_dihedrals r2 r3 r4) (snd x))"
    by (auto simp: window_calls_def)
  then have "fst p \<in> {omega r2, phi r2, psi r2, omega r3, phi r3, psi r3, omega r4}"
    by (auto simp: cluster_D_calls_def window_dihedrals_def)
  with None show ?thesis by simp
qed

text \<open>
  Claim C7. A window with the sentinel 999.0 in any of its seven dihedrals is skipped
  by the gate: the scan leaves the state as it is and calls \<^verbatim>\<open>angle_distance\<close> on
  no argument. For every window, no first argument of a call of
  \<^verbatim>\<open>angle_distance\<close> is the sentinel.
\<close>

theorem sentinel_never_classified:
  "(omega r2 = 999 \<or> phi r2 = 999 \<or> psi r2 = 999 \<or> omega r3 = 999 \<or> phi r3 = 999
      \<or> psi r3 = 999 \<or> omega r4 = 999
     \<longrightarrow> window_gate r1 r2 r3 r4 \<noteq> None
         \<and> scan_window lib f chain r1 r2 r3 r4 st = Inr st
         \<and> window_calls lib r1 r2 r3 r4 = [])
   \<and> (\<forall>p \<in> set (window_calls lib r1 r2 r3 r4). fst p \<noteq> 999)"
proof -
  have skip: "window_gate r1 r2 r3 r4 \<noteq> None
         \<and> scan_window lib f chain r1 r2 r3 r4 st = Inr st
         \<and> window_calls lib r1 r2 r3 r4 = []"
    if s: "omega r2 = 999 \<or> phi r2 = 999 \<or> psi r2 = 999 \<or> omega r3 = 999 \<or> phi r3 = 999
      \<or> psi r3 = 999 \<or> omega r4 = 999"
  proof -
    have "window_gate r1 r2 r3 r4 \<noteq> None"
      using window_gate_passed [of r1 r2 r3 r4] s by blast
    then obtain reason where "window_gate r1 r2 r3 r4 = Some reason" by blast
    then show ?thesis by (simp add: scan_window_def window_calls_def)
  qed
  have clean: "fst p \<noteq> 999" if p: "p \<in> set (window_calls lib r1 r2 r3 r4)" for p
  proof -
    from window_calls_first_args [OF p]
    have m: "fst p \<in> {omega r2, phi r2, psi r2, omega r3, phi r3, psi r3, omega r4}"
      and g: "window_gate r1 r2 r3 r4 = None" by simp_all
    from window_gate_passed [OF g] have "omega r2 \<noteq> 999" "phi r2 \<noteq> 999" "psi r2 \<noteq> 999"
      "omega r3 \<noteq> 999" "phi r3 \<noteq> 999" "psi r3 \<noteq> 999" "omega r4 \<noteq> 999" by blast+
    with m show ?thesis by auto
  qed
  from skip clean show ?thesis by blast
qed

theorem sentinel_never_classified_witness:
  "omega ad3_sentinel = 999
   \<and> window_gate ad1 ad2 ad3_sentinel ad4 \<noteq> None
   \<and> scan_window define_turn_library ''1abc'' ''A'' ad1 ad2 ad3_sentinel ad4 state0 = Inr state0
   \<and> window_calls define_turn_library ad1 ad2 ad3_sentinel ad4 = []"
proof -
  have s: "omega ad3_sentinel = 999" by (simp add: ad3_sentinel_def sample_row_def)
  with sentinel_never_classified
    [of ad2 ad3_sentinel ad4 ad1 define_turn_library "''1abc''" "''A''" state0]
  show ?thesis by simp
qed

section \<open>Properties of the dihedral calculator\<close>

lemma round_half_even_bounds:
  "\<bar>y - of_int (round_half_even y)\<bar> \<le> 1 / 2"
proof -
  define d where "d = y - of_int \<lfloor>y\<rfloor>"
  have d: "0 \<le> d" "d < 1" unfolding d_def by linarith+
  have y: "y = of_int \<lfloor>y\<rfloor> + d" unfolding d_def by simp
  consider "d < 1 / 2" | "1 / 2 < d" | "d = 1 / 2" by linarith
  then show ?thesis
  proof cases
    case 1
    then have "round_half_even y = \<lfloor>y\<rfloor>"
      by (simp add: round_half_even_def Let_def d_def)
    then have "y - of_int (round_half_even y) = d" by (simp add: d_def)
    with d 1 show ?thesis by simp
  next
    case 2
    then have "round_half_even y = \<lfloor>y\<rfloor> + 1"
      by (simp add: round_half_even_def Let_def d_def)
    then have "y - of_int (round_half_even y) = d - 1" by (simp add: d_def)
    with d 2 show ?thesis by simp
  next
    case 3
    then have "round_half_even y = \<lfloor>y\<rfloor> \<or> round_half_even y = \<lfloor>y\<rfloor> + 1"
      by (simp add: round_half_even_def Let_def d_def)
    then have "y - of_int (round_half_even y) = d \<or> y - of_int (round_half_even y) = d - 1"
      by (auto simp: d_def)
    with 3 show ?thesis by auto
  qed
qed

lemma round_half_even_of_int: "round_half_even (of_int k) = k"
  by (simp add: round_half_even_def)

lemma py_round_decimal: "\<exists>k :: int. py_round x n = of_int k / 10 ^ n"
  unfolding py_round_def by blast

lemma py_round_close: "\<bar>x - py_round x n\<bar> \<le> 1 / (2 * 10 ^ n)"
proof -
  have p: "(0::real) < 10 ^ n" by simp
  have "\<bar>x * 10 ^ n - of_int (round_half_even (x * 10 ^ n))\<bar> \<le> 1 / 2"
    by (rule round_half_even_bounds)
  then have "\<bar>x * 10 ^ n - of_int (round_half_even (x * 10 ^ n))\<bar> / 10 ^ n \<le> (1 / 2) / 10 ^ n"
    by (rule divide_right_mono) simp
  moreover have "\<bar>x * 10 ^ n - of_int (round_half_even (x * 10 ^ n))\<bar> / 10 ^ n
      = \<bar>x - of_int (round_half_even (x * 10 ^ n)) / 10 ^ n\<bar>"
  proof -
    have "\<bar>x * 10 ^ n - of_int (round_half_even (x * 10 ^ n))\<bar> / 10 ^ n
        = \<bar>(x * 10 ^ n - of_int (round_half_even (x * 10 ^ n))) / 10 ^ n\<bar>"
      using p by (simp add: abs_divide)
    also have "(x * 10 ^ n - of_int (round_half_even (x * 10 ^ n))) / 10 ^ n
        = x - of_int (round_half_even (x * 10 ^ n)) / 10 ^ n"
      using p by (simp add: diff_divide_distrib)
    finally show ?thesis .
  qed
  ultimately show ?thesis by (simp add: py_round_def)
qed

lemma py_round_exact:
  assumes "x * 10 ^ n = of_int k"
  shows "py_round x n = x"
proof -
  have "py_round x n = of_int k / 10 ^ n"
    by (simp add: py_round_def assms round_half_even_of_int)
  also have "\<dots> = x" using assms [symmetric] by simp
  finally show ?thesis .
qed

lemma get_vector_present: "atoms r name = Some v \<Longrightarrow> get_vector r name = Inr v"
  by (simp add: get_vector_def)

lemma compute_phi_value:
  "compute_phi cd prev_residue curr_residue =
     (case (atoms prev_residue ''C'', atoms curr_residue ''N'', atoms curr_residue ''CA'', atoms curr_residue ''C'') of
        (Some prev_c, Some curr_n, Some curr_a, Some curr_c) \<Rightarrow>
          if seqnum curr_residue = seqnum prev_residue + 1
          then Inr (py_round (degrees (cd prev_c curr_n curr_a curr_c)) 6) else Inr 999
      | _ \<Rightarrow> Inr 999)"
  by (simp add: compute_phi_def has_id_def get_vector_def split: option.splits)

lemma compute_psi_value:
  "compute_psi cd curr_residue next_residue =
     (case (atoms curr_residue ''N'', atoms curr_residue ''CA'', atoms curr_residue ''C'', atoms next_residue ''N'') of
        (Some curr_n, Some curr_a, Some curr_c, Some next_n) \<Rightarrow>
          if seqnum next_residue = seqnum curr_residue + 1
          then Inr (py_round (degrees (cd curr_n curr_a curr_c next_n)) 6) else Inr 999
      | _ \<Rightarrow> Inr 999)"
  by (simp add: compute_psi_def has_id_def get_vector_def split: option.splits)

lemma compute_omega_value:
  "compute_omega cd prev_residue curr_residue =
     (case (atoms prev_residue ''CA'', atoms prev_residue ''C'', atoms curr_residue ''N'', atoms curr_residue ''CA'') of
        (Some prev_ca, Some prev_c, Some curr_n, Some curr_a) \<Rightarrow>
          if seqnum curr_residue = seqnum prev_residue + 1
          then Inr (py_round (degrees (cd prev_ca prev_c curr_n curr_a)) 6) else Inr 999
      | _ \<Rightarrow> Inr 999)"
  by (simp add: compute_omega_def has_id_def get_vector_def split: option.splits)

lemma degrees_radians: "degrees (radians x) = x"
  by (simp add: degrees_def radians_def)

lemma py_round_exact_Ints:
  assumes "x * 10 ^ n \<in> \<int>"
  shows "py_round x n = x"
proof -
  from assms obtain k :: int where "x * 10 ^ n = of_int k" by (auto elim: Ints_cases)
  then show ?thesis by (rule py_round_exact)
qed

text \<open>
  Claim C5. Each of \<^verbatim>\<open>compute_phi\<close>, \<^verbatim>\<open>compute_psi\<close> and
  \<^verbatim>\<open>compute_omega\<close> returns the sentinel 999.0 when a required atom is missing or
  the sequence number of the later residue is not that of the earlier one plus 1, and
  otherwise the dihedral of its four atoms, in degrees, rounded to 6 decimal digits:
  a multiple of one millionth within half a millionth of the angle. A gap of one
  residue number gives the sentinel in all three.
\<close>

theorem dihedral_calculator_contract:
  "(\<not> (has_id r ''C'' \<and> has_id s ''N'' \<and> has_id s ''CA'' \<and> has_id s ''C'')
      \<or> seqnum s \<noteq> seqnum r + 1 \<longrightarrow> compute_phi cd r s = Inr 999)
   \<and> (atoms r ''C'' = Some prev_c \<and> atoms s ''N'' = Some curr_n \<and> atoms s ''CA'' = Some curr_a
        \<and> atoms s ''C'' = Some curr_c \<and> seqnum s = seqnum r + 1
      \<longrightarrow> compute_phi cd r s = Inr (py_round (degrees (cd prev_c curr_n curr_a curr_c)) 6))
   \<and> (\<not> (has_id r ''N'' \<and> has_id r ''CA'' \<and> has_id r ''C'' \<and> has_id s ''N'')
      \<or> seqnum s \<noteq> seqnum r + 1 \<longrightarrow> compute_psi cd r s = Inr 999)
   \<and> (atoms r ''N'' = Some prev_n \<and> atoms r ''CA'' = Some prev_a \<and> atoms r ''C'' = Some prev_c
        \<and> atoms s ''N'' = Some curr_n \<and> seqnum s = seqnum r + 1
      \<longrightarrow> compute_psi cd r s = Inr (py_round (degrees (cd prev_n prev_a prev_c curr_n)) 6))
   \<and> (\<not> (has_id r ''CA'' \<and> has_id r ''C'' \<and> has_id s ''N'' \<and> has_id s ''CA'')
      \<or> seqnum s \<noteq> seqnum r + 1 \<longrightarrow> compute_omega cd r s = Inr 999)
   \<and> (atoms r ''CA'' = Some prev_a \<and> atoms r ''C'' = Some prev_c \<and> atoms s ''N'' = Some curr_n
        \<and> atoms s ''CA'' = Some curr_a \<and> seqnum s = seqnum r + 1
      \<longrightarrow> compute_omega cd r s = Inr (py_round (degrees (cd prev_a prev_c curr_n curr_a)) 6))
   \<and> (seqnum s = seqnum r + 2 \<longrightarrow>
        compute_phi cd r s = Inr 999 \<and> compute_psi cd r s = Inr 999
        \<and> compute_omega cd r s = Inr 999)
   \<and> (\<exists>k :: int. py_round x 6 = of_int k / 10 ^ 6)
   \<and> \<bar>x - py_round x 6\<bar> \<le> 1 / (2 * 10 ^ 6)"
proof -
  have phi1: "\<not> (has_id r ''C'' \<and> has_id s ''N'' \<and> has_id s ''CA'' \<and> has_id s ''C'')
      \<or> seqnum s \<noteq> seqnum r + 1 \<longrightarrow> compute_phi cd r s = Inr 999"
    by (simp add: compute_phi_def)
  have phi2: "atoms r ''C'' = Some prev_c \<and> atoms s ''N'' = Some curr_n \<and> atoms s ''CA'' = Some curr_a
        \<and> atoms s ''C'' = Some curr_c \<and> seqnum s = seqnum r + 1
      \<longrightarrow> compute_phi cd r s = Inr (py_round (degrees (cd prev_c curr_n curr_a curr_c)) 6)"
    by (simp add: compute_phi_value)
  have psi1: "\<not> (has_id r ''N'' \<and> has_id r ''CA'' \<and> has_id r ''C'' \<and> has_id s ''N'')
      \<or> seqnum s \<noteq> seqnum r + 1 \<longrightarrow> compute_psi cd r s = Inr 999"
    by (simp add: compute_psi_def)
  have psi2: "atoms r ''N'' = Some prev_n \<and> atoms r ''CA'' = Some prev_a \<and> atoms r ''C'' = Some prev_c
        \<and> atoms s ''N'' = Some curr_n \<and> seqnum s = seqnum r + 1
      \<longrightarrow> compute_psi cd r s = Inr (py_round (degrees (cd prev_n prev_a prev_c curr_n)) 6)"
    by (simp add: compute_psi_value)
  have om1: "\<not> (has_id r ''CA'' \<and> has_id r ''C'' \<and> has_id s ''N'' \<and> has_id s ''CA'')
      \<or> seqnum s \<noteq> seqnum r + 1 \<longrightarrow> compute_omega cd r s = Inr 999"
    by (simp add: compute_omega_def)
  have om2: "atoms r ''CA'' = Some prev_a \<and> atoms r ''C'' = Some prev_c \<and> atoms s ''N'' = Some curr_n
        \<and> atoms s ''CA'' = Some curr_a \<and> seqnum s = seqnum r + 1
      \<longrightarrow> compute_omega cd r s = Inr (py_round (degrees (cd prev_a prev_c curr_n curr_a)) 6)"
    by (simp add: compute_omega_value)
  have gap: "seqnum s = seqnum r + 2 \<longrightarrow>
        compute_phi cd r s = Inr 999 \<and> compute_psi cd r s = Inr 999
        \<and> compute_omega cd r s = Inr 999"
    by (simp add: compute_phi_def compute_psi_def compute_omega_def)
  from phi1 phi2 psi1 psi2 om1 om2 gap py_round_decimal [of x 6] py_round_close [of x 6]
  show ?thesis by (intro conjI)
qed

theorem dihedral_calculator_contract_witness:
  "compute_phi sample_cd p1 p2 = Inr (- 5528 / 100)
   \<and> compute_psi sample_cd p1 p2 = Inr (- 60)
   \<and> compute_omega sample_cd p1 p2 = Inr (17869 / 100)
   \<and> seqnum p4 = seqnum p2 + 2
   \<and> compute_phi sample_cd p2 p4 = Inr 999 \<and> compute_psi sample_cd p2 p4 = Inr 999
   \<and> compute_omega sample_cd p2 p4 = Inr 999"
proof -
  have a: "atoms p1 ''N'' = Some (- 60, 0, 0)" "atoms p1 ''CA'' = Some (17869 / 100, 0, 0)"
    "atoms p1 ''C'' = Some (- 5528 / 100, 0, 0)"
    "atoms p2 ''N'' = Some (13276 / 100, 0, 0)" "atoms p2 ''CA'' = Some (17553 / 100, 0, 0)"
    "atoms p2 ''C'' = Some (8238 / 100, 0, 0)"
    by (simp_all add: p1_def p2_def sample_residue_def)
  have s: "seqnum p2 = seqnum p1 + 1" "seqnum p4 = seqnum p2 + 2"
    by (simp_all add: p1_def p2_def p4_def sample_residue_def)
  note c1 = dihedral_calculator_contract [of p1 p2 sample_cd "(- 5528 / 100, 0, 0)"
      "(13276 / 100, 0, 0)" "(17553 / 100, 0, 0)" "(8238 / 100, 0, 0)"
      "(- 60, 0, 0)" "(17869 / 100, 0, 0)" 0]
  note c2 = dihedral_calculator_contract [of p2 p4 sample_cd]
  from c1 a s have "compute_phi sample_cd p1 p2 = Inr (- 5528 / 100)"
    "compute_psi sample_cd p1 p2 = Inr (- 60)"
    "compute_omega sample_cd p1 p2 = Inr (17869 / 100)"
    by (simp_all add: sample_cd_def degrees_radians py_round_exact_Ints)
  moreover from c2 s have "compute_phi sample_cd p2 p4 = Inr 999"
    "compute_psi sample_cd p2 p4 = Inr 999" "compute_omega sample_cd p2 p4 = Inr 999"
    by simp_all
  ultimately show ?thesis using s by simp
qed

section \<open>Residue numbers of a printed turn\<close>

lemma of_char_digit_char: "d < 10 \<Longrightarrow> (of_char (digit_char d) :: nat) = 48 + d"
  by (simp add: digit_char_def)

lemma is_digit_digit_char: "d < 10 \<Longrightarrow> is_digit (digit_char d)"
  by (simp add: is_digit_def of_char_digit_char)

lemma digits_value_snoc:
  "digits_value (ds @ [c]) = 10 * digits_value ds + (of_char c - 48)"
  by (simp add: digits_value_def)

lemma nat_digits_props:
  "list_all is_digit (nat_digits n) \<and> nat_digits n \<noteq> [] \<and> digits_value (nat_digits n) = n"
proof (induction n rule: nat_digits.induct)
  case (1 n)
  show ?case
  proof (cases "n < 10")
    case True
    then have "nat_digits n = [digit_char n]" by (simp add: nat_digits.simps [of n])
    with True show ?thesis
      by (simp add: is_digit_digit_char digits_value_def of_char_digit_char)
  next
    case False
    then have e: "nat_digits n = nat_digits (n div 10) @ [digit_char (n mod 10)]"
      by (simp add: nat_digits.simps [of n])
    have m: "n mod 10 < 10" by simp
    from "1.IH" [OF False] have ih: "list_all is_digit (nat_digits (n div 10))"
      "digits_value (nat_digits (n div 10)) = n div 10" by simp_all
    have "digits_value (nat_digits n) = 10 * (n div 10) + n mod 10"
      by (simp add: e digits_value_snoc ih(2) of_char_digit_char [OF m])
    then have "digits_value (nat_digits n) = n" by simp
    with ih(1) show ?thesis by (simp add: e is_digit_digit_char [OF m])
  qed
qed

lemma py_int_py_str: "py_int (py_str i) = Inr i"
proof (cases "i < 0")
  case True
  with nat_digits_props [of "nat (- i)"] show ?thesis
    by (simp add: py_int_def py_str_def)
next
  case False
  from nat_digits_props [of "nat i"] have p: "list_all is_digit (nat_digits (nat i))"
    "nat_digits (nat i) \<noteq> []" "digits_value (nat_digits (nat i)) = nat i" by simp_all
  from p(1,2) have "is_digit (hd (nat_digits (nat i)))"
    by (cases "nat_digits (nat i)") simp_all
  moreover have "\<not> is_digit CHR ''-''" by (simp add: is_digit_def)
  ultimately have "hd (nat_digits (nat i)) \<noteq> CHR ''-''" by metis
  with False p show ?thesis by (simp add: py_int_def py_str_def)
qed

lemma build_rows_nth:
  "build_rows f js = Inr rs \<Longrightarrow>
     length rs = length js \<and> (\<forall>j < length js. f (js ! j) = Inr (rs ! j))"
proof (induction js arbitrary: rs)
  case Nil
  then show ?case by simp
next
  case (Cons i rest)
  from Cons.prems obtain r rs' where r: "f i = Inr r" "build_rows f rest = Inr rs'" "rs = r # rs'"
    by (auto split: sum.splits)
  from Cons.IH [OF r(2)] have ih: "length rs' = length rest"
    "\<forall>j < length rest. f (rest ! j) = Inr (rs' ! j)" by simp_all
  have "f ((i # rest) ! j) = Inr (rs ! j)" if "j < length (i # rest)" for j
    using that r(1,3) ih(2) by (cases j) simp_all
  with ih(1) r(3) show ?case by simp
qed

lemma build_table_rows:
  assumes "build_table cd seqscheme_dict dssp_dict chain aa_residues = Inr tbl"
  shows "length tbl = length aa_residues"
    and "j < length aa_residues \<Longrightarrow>
           build_row cd seqscheme_dict dssp_dict chain aa_residues j = Inr (tbl ! j)"
proof -
  from build_rows_nth [OF assms [unfolded build_table_def]]
  have a: "length tbl = length [0 ..< length aa_residues]"
    and b: "\<forall>j < length [0 ..< length aa_residues].
          build_row cd seqscheme_dict dssp_dict chain aa_residues ([0 ..< length aa_residues] ! j)
            = Inr (tbl ! j)" by simp_all
  from a show "length tbl = length aa_residues" by simp
  assume "j < length aa_residues"
  with b show "build_row cd seqscheme_dict dssp_dict chain aa_residues j = Inr (tbl ! j)"
    by simp
qed

lemma build_row_fields:
  assumes "build_row cd seqscheme_dict dssp_dict chain aa_residues j = Inr r"
  shows "resnum r = seqnum (aa_residues ! j)"
    and "auth_key r = (chain, py_str (seqnum (aa_residues ! j)))"
    and "0 < j \<Longrightarrow> compute_omega cd (aa_residues ! (j - 1)) (aa_residues ! j) = Inr (omega r)"
    and "0 < j \<Longrightarrow> compute_phi cd (aa_residues ! (j - 1)) (aa_residues ! j) = Inr (phi r)"
  using assms
  by (auto simp: build_row_def Let_def split: sum.splits if_splits)

lemma compute_omega_consecutive:
  "compute_omega cd r s = Inr v \<Longrightarrow> v \<noteq> 999 \<Longrightarrow> seqnum s = seqnum r + 1"
  by (auto simp: compute_omega_def split: if_splits)

lemma scan_window_printed:
  assumes "scan_window lib f chain r1 r2 r3 r4 st = Inr st'"
      and "printed st' = printed st @ [line]"
  shows "window_gate r1 r2 r3 r4 = None
         \<and> py_int (snd (auth_key r1)) = Inr (line_resnum1 line)
         \<and> line_resnum4 line = line_resnum1 line + 3"
proof (cases "window_gate r1 r2 r3 r4")
  case (Some reason)
  with assms show ?thesis by (simp add: scan_window_def)
next
  case None
  obtain minD mt where loop:
    "nearest_loop lib (window_dihedrals r2 r3 r4) (100, minturn st) = (minD, mt)"
    by (cases "nearest_loop lib (window_dihedrals r2 r3 r4) (100, minturn st)")
  from assms None loop show ?thesis
    by (auto simp: scan_window_def Let_def split: if_splits sum.splits option.splits)
qed

text \<open>
  Claim C9. When the scan prints a line for a window of a table assembled by the
  program, the last residue number of the line is the first one plus 3, the first one
  is the author sequence number of the first residue, and the last one is the author
  sequence number of the fourth residue: the three omega angles that the gate requires
  to be defined are only computed for residues numbered consecutively.
\<close>

theorem last_residue_number:
  assumes tbl: "build_table cd seqscheme_dict dssp_dict chain aa_residues = Inr tbl"
      and i: "i + 3 < length tbl"
      and run: "scan_window lib f chain' (tbl ! i) (tbl ! (i + 1)) (tbl ! (i + 2)) (tbl ! (i + 3)) st
                  = Inr st'"
      and emitted: "printed st' = printed st @ [line]"
  shows "line_resnum1 line = resnum (tbl ! i)
     \<and> line_resnum4 line = line_resnum1 line + 3
     \<and> line_resnum4 line = resnum (tbl ! (i + 3))
     \<and> resnum (tbl ! i) = seqnum (aa_residues ! i)
     \<and> resnum (tbl ! (i + 3)) = seqnum (aa_residues ! (i + 3))
     \<and> seqnum (aa_residues ! (i + 1)) = seqnum (aa_residues ! i) + 1
     \<and> seqnum (aa_residues ! (i + 2)) = seqnum (aa_residues ! (i + 1)) + 1
     \<and> seqnum (aa_residues ! (i + 3)) = seqnum (aa_residues ! (i + 2)) + 1"
proof -
  note len = build_table_rows(1) [OF tbl]
  have row: "build_row cd seqscheme_dict dssp_dict chain aa_residues j = Inr (tbl ! j)"
    if "j < length aa_residues" for j
    using build_table_rows(2) [OF tbl that] .
  from i len have b: "i < length aa_residues" "i + 1 < length aa_residues"
    "i + 2 < length aa_residues" "i + 3 < length aa_residues" by simp_all
  note f0 = build_row_fields [OF row [OF b(1)]]
  note f1 = build_row_fields [OF row [OF b(2)]]
  note f2 = build_row_fields [OF row [OF b(3)]]
  note f3 = build_row_fields [OF row [OF b(4)]]
  from scan_window_printed [OF run emitted]
  have gate: "window_gate (tbl ! i) (tbl ! (i + 1)) (tbl ! (i + 2)) (tbl ! (i + 3)) = None"
    and key: "py_int (snd (auth_key (tbl ! i))) = Inr (line_resnum1 line)"
    and plus3: "line_resnum4 line = line_resnum1 line + 3" by simp_all
  from window_gate_passed [OF gate]
  have ne: "omega (tbl ! (i + 1)) \<noteq> 999" "omega (tbl ! (i + 2)) \<noteq> 999"
    "omega (tbl ! (i + 3)) \<noteq> 999" by blast+
  from f1(3) have "compute_omega cd (aa_residues ! i) (aa_residues ! (i + 1))
      = Inr (omega (tbl ! (i + 1)))" by simp
  from compute_omega_consecutive [OF this ne(1)]
  have s1: "seqnum (aa_residues ! (i + 1)) = seqnum (aa_residues ! i) + 1" .
  from f2(3) have "compute_omega cd (aa_residues ! (i + 1)) (aa_residues ! (i + 2))
      = Inr (omega (tbl ! (i + 2)))" by simp
  from compute_omega_consecutive [OF this ne(2)]
  have s2: "seqnum (aa_residues ! (i + 2)) = seqnum (aa_residues ! (i + 1)) + 1" .
  from f3(3) have "compute_omega cd (aa_residues ! (i + 2)) (aa_residues ! (i + 3))
      = Inr (omega (tbl ! (i + 3)))" by simp
  from compute_omega_consecutive [OF this ne(3)]
  have s3: "seqnum (aa_residues ! (i + 3)) = seqnum (aa_residues ! (i + 2)) + 1" .
  from key f0(2) have "py_int (py_str (seqnum (aa_residues ! i))) = Inr (line_resnum1 line)"
    by simp
  then have first: "line_resnum1 line = seqnum (aa_residues ! i)"
    by (simp add: py_int_py_str)
  from first plus3 s1 s2 s3 f0(1) f3(1) show ?thesis by simp
qed

lemma sample_rows_built:
  "build_row sample_cd no_annotation no_annotation ''A'' sample_chain 0 = Inr s1"
  "build_row sample_cd no_annotation no_annotation ''A'' sample_chain 1 = Inr s2"
  "build_row sample_cd no_annotation no_annotation ''A'' sample_chain 2 = Inr s3"
  "build_row sample_cd no_annotation no_annotation ''A'' sample_chain 3 = Inr s4"
  by (simp_all add: build_row_def sample_chain_def s1_def s2_def s3_def s4_def sample_row_def
      no_annotation_def find_label_key_def getres1_def Let_def
      compute_phi_value compute_psi_value compute_omega_value
      p1_def p2_def p3_def p4_def sample_residue_def sample_cd_def
      degrees_radians py_round_exact_Ints)

lemma sample_table_built:
  "build_table sample_cd no_annotation no_annotation ''A'' sample_chain = Inr sample_table"
proof -
  have u: "[0 ..< length sample_chain] = [0, 1, 2, 3]"
    by (simp add: sample_chain_def upt_rec)
  show ?thesis
    unfolding build_table_def u sample_table_def
    by (simp only: build_rows.simps sample_rows_built sum.case)
qed

lemma sample_table_nth:
  "sample_table ! 0 = s1" "sample_table ! (0 + 1) = s2"
  "sample_table ! (0 + 2) = s3" "sample_table ! (0 + 3) = s4"
  by (simp_all add: sample_table_def)

lemma pd_window_is_medoid:
  "window_dihedrals s2 s3 s4 = medoid_dihedrals (snd (define_turn_library ! 1))"
  by (simp add: window_dihedrals_def medoid_dihedrals_def s2_def s3_def s4_def
      sample_row_def define_turn_library_def)

lemma pd_in_library: "(''Pd'', snd (define_turn_library ! 1)) \<in> set define_turn_library"
proof -
  have "define_turn_library ! 1 \<in> set define_turn_library"
    by (rule nth_mem) (simp add: library_length)
  moreover have "fst (define_turn_library ! 1) = ''Pd''"
    by (simp add: define_turn_library_def)
  ultimately show ?thesis by (metis prod.collapse)
qed

lemma sample_window_gate: "window_gate s1 s2 s3 s4 = None"
  by (simp add: window_gate_def s1_def s2_def s3_def s4_def sample_row_def Let_def
      suffix_to_prefix)

lemma sample_window_scan:
  "\<exists>st' line.
     scan_window define_turn_library ''1abc'' ''A'' s1 s2 s3 s4 state0 = Inr st'
     \<and> printed st' = printed state0 @ [line] \<and> line_minturn line = ''Pd''"
proof -
  have loop: "nearest_loop define_turn_library (window_dihedrals s2 s3 s4)
      (100, minturn state0) = (0, Some ''Pd'')"
    using nearest_loop_medoid [OF pd_in_library, of "minturn state0"]
    by (simp only: pd_window_is_medoid)
  have look: "map_of define_turn_library ''Pd'' = Some (snd (define_turn_library ! 1))"
    using pd_in_library library_keys_distinct by (simp only: map_of_eq_Some_iff)
  have key: "py_int (snd (auth_key s1)) = Inr 5"
    using py_int_py_str [of 5] by (simp add: s1_def sample_row_def)
  have theta: "find_theta_in_degrees 0 = Inr (degrees (arccos (1 - 0 / 2)))"
    by (rule find_theta_in_range) simp_all
  have c: "(0::real) \<le> TURN_DIST_CUTOFF" by (simp add: TURN_DIST_CUTOFF_def)
  let ?line = "\<lparr>line_nturns = nturns state0 + 1, line_chain = ''A'',
                line_resnum1 = 5, line_resnum4 = 5 + 3,
                line_seq = res1 s1 @ res1 s2 @ res1 s3 @ res1 s4,
                line_dssp_string = dssp_ss s1 @ dssp_ss s2 @ dssp_ss s3 @ dssp_ss s4,
                line_minturn = ''Pd'',
                line_prevname = prev_name (snd (define_turn_library ! 1)),
                line_minD = 0, line_mintheta = degrees (arccos (1 - 0 / 2)),
                line_CA1_CA4_distance = CA1_CA4_distance s1 s4,
                line_angles = window_dihedrals s2 s3 s4,
                line_filename = ''1abc''\<rparr>"
  let ?st = "state0\<lparr>minturn := Some ''Pd'', nturns := nturns state0 + 1,
            printed := printed state0 @ [?line]\<rparr>"
  have run: "scan_window define_turn_library ''1abc'' ''A'' s1 s2 s3 s4 state0 = Inr ?st"
    unfolding scan_window_passed [OF sample_window_gate loop]
    by (simp only: c if_True key look theta sum.case option.case)
  have p: "printed ?st = printed state0 @ [?line]" by simp
  have m: "line_minturn ?line = ''Pd''" by simp
  from run p m show ?thesis by blast
qed

theorem last_residue_number_witness:
  "build_table sample_cd no_annotation no_annotation ''A'' sample_chain = Inr sample_table
   \<and> 0 + 3 < length sample_table
   \<and> (\<exists>st' line.
        scan_window define_turn_library ''1abc'' ''A''
          (sample_table ! 0) (sample_table ! (0 + 1)) (sample_table ! (0 + 2))
          (sample_table ! (0 + 3)) state0 = Inr st'
        \<and> printed st' = printed state0 @ [line]
        \<and> line_minturn line = ''Pd''
        \<and> line_resnum1 line = 5 \<and> line_resnum4 line = 8
        \<and> seqnum (sample_chain ! 3) = 8)"
proof -
  have len: "0 + 3 < length sample_table" by (simp add: sample_table_def)
  from sample_window_scan obtain st' line where
    run0: "scan_window define_turn_library ''1abc'' ''A'' s1 s2 s3 s4 state0 = Inr st'"
    and emitted: "printed st' = printed state0 @ [line]"
    and pd: "line_minturn line = ''Pd''" by blast
  from run0 have run: "scan_window define_turn_library ''1abc'' ''A''
          (sample_table ! 0) (sample_table ! (0 + 1)) (sample_table ! (0 + 2))
          (sample_table ! (0 + 3)) state0 = Inr st'"
    by (simp only: sample_table_nth)
  note r = last_residue_number [OF sample_table_built len run emitted]
  have q: "seqnum (sample_chain ! 0) = 5" "seqnum (sample_chain ! (0 + 3)) = 8"
    "seqnum (sample_chain ! 3) = 8"
    by (simp_all add: sample_chain_def p1_def p4_def sample_residue_def)
  from r q have n: "line_resnum1 line = 5" "line_resnum4 line = 8" by simp_all
  from run emitted pd n q(3) have "\<exists>st' line.
        scan_window define_turn_library ''1abc'' ''A''
          (sample_table ! 0) (sample_table ! (0 + 1)) (sample_table ! (0 + 2))
          (sample_table ! (0 + 3)) state0 = Inr st'
        \<and> printed st' = printed state0 @ [line]
        \<and> line_minturn line = ''Pd''
        \<and> line_resnum1 line = 5 \<and> line_resnum4 line = 8
        \<and> seqnum (sample_chain ! 3) = 8"
    by (intro exI conjI)
  with sample_table_built len show ?thesis by (intro conjI)
qed

section \<open>The nearest-centroid rule\<close>

lemma cluster_D_window:
  "cluster_D (window_dihedrals r2 r3 r4) c =
     (angle_distance (omega r2) (medoid_omega2 c) +
      angle_distance (phi r2) (medoid_phi2 c) +
      angle_distance (psi r2) (medoid_psi2 c) +
      angle_distance (omega r3) (medoid_omega3 c) +
      angle_distance (phi r3) (medoid_phi3 c) +
      angle_distance (psi r3) (medoid_psi3 c) +
      angle_distance (omega r4) (medoid_omega4 c)) / 7"
  by (simp add: cluster_D_def window_dihedrals_def)

lemma first_minimum_least:
  assumes "lib = xs @ (turn, c) # ys"
      and "\<forall>x \<in> set xs. (f c :: real) < f (snd x)"
      and "\<forall>y \<in> set ys. f c \<le> f (snd y)"
      and "p \<in> set lib"
  shows "f c \<le> f (snd p)"
proof -
  from assms(1,4) have "p \<in> set xs \<or> p = (turn, c) \<or> p \<in> set ys" by auto
  then show ?thesis
  proof (elim disjE)
    assume "p \<in> set xs"
    with assms(2) have "f c < f (snd p)" by blast
    then show ?thesis by simp
  next
    assume "p = (turn, c)"
    then show ?thesis by simp
  next
    assume "p \<in> set ys"
    with assms(3) show ?thesis by blast
  qed
qed

text \<open>
  Claim C1. A window that passes the gate is scored against all 18 clusters of the
  library. The score of a cluster is the mean of the seven distances
  \<open>2 (1 - cos (a - b))\<close>, with \<open>a - b\<close> taken in degrees, between the angles omega, phi,
  psi of the second row, omega, phi, psi of the third row and omega of the fourth row
  and the medoid angles of the cluster in the same positions. The loop ends on the first
  cluster of least score: the clusters before it in the library score strictly more,
  the clusters after it do not score less. A line is printed for that cluster exactly
  when its score is at most 0.2359; it carries the cluster's type code, the score and
  the seven angles of the window. Otherwise nothing is printed and no exception is
  raised. The first row carries a key written by \<^verbatim>\<open>str\<close>, so that \<^verbatim>\<open>int\<close>
  reads it back.
\<close>

theorem classifier_nearest_centroid:
  assumes gate: "window_gate r1 r2 r3 r4 = None"
      and key: "py_int (snd (auth_key r1)) = Inr n"
  shows "let D = (\<lambda>c :: turn_cluster. (angle_distance (omega r2) (medoid_omega2 c) +
                       angle_distance (phi r2) (medoid_phi2 c) +
                       angle_distance (psi r2) (medoid_psi2 c) +
                       angle_distance (omega r3) (medoid_omega3 c) +
                       angle_distance (phi r3) (medoid_phi3 c) +
                       angle_distance (psi r3) (medoid_psi3 c) +
                       angle_distance (omega r4) (medoid_omega4 c)) / 7)
    in (\<forall>a b. angle_distance a b = 2 * (1 - cos ((a - b) * pi / 180)))
     \<and> length define_turn_library = 18
     \<and> (\<exists>xs turn c ys.
          define_turn_library = xs @ (turn, c) # ys
          \<and> (\<forall>x \<in> set xs. D c < D (snd x))
          \<and> (\<forall>y \<in> set ys. D c \<le> D (snd y))
          \<and> scan_window define_turn_library f chain r1 r2 r3 r4 st =
              (if D c \<le> 2359 / 10000
               then Inr (st\<lparr>minturn := Some turn, nturns := nturns st + 1,
                      printed := printed st @
                        [\<lparr>line_nturns = nturns st + 1, line_chain = chain,
                          line_resnum1 = n, line_resnum4 = n + 3,
                          line_seq = res1 r1 @ res1 r2 @ res1 r3 @ res1 r4,
                          line_dssp_string =
                            dssp_ss r1 @ dssp_ss r2 @ dssp_ss r3 @ dssp_ss r4,
                          line_minturn = turn, line_prevname = prev_name c,
                          line_minD = D c,
                          line_mintheta = degrees (arccos (1 - D c / 2)),
                          line_CA1_CA4_distance = CA1_CA4_distance r1 r4,
                          line_angles =
                            \<lparr>omega2 = omega r2, phi2 = phi r2, psi2 = psi r2,
                             omega3 = omega r3, phi3 = phi r3, psi3 = psi r3,
                             omega4 = omega r4\<rparr>,
                          line_filename = f\<rparr>]\<rparr>)
               else Inr (st\<lparr>minturn := Some turn\<rparr>)))"
proof -
  let ?a = "window_dihedrals r2 r3 r4"
  define D where "D = (\<lambda>c :: turn_cluster. (angle_distance (omega r2) (medoid_omega2 c) +
                       angle_distance (phi r2) (medoid_phi2 c) +
                       angle_distance (psi r2) (medoid_psi2 c) +
                       angle_distance (omega r3) (medoid_omega3 c) +
                       angle_distance (phi r3) (medoid_phi3 c) +
                       angle_distance (psi r3) (medoid_psi3 c) +
                       angle_distance (omega r4) (medoid_omega4 c)) / 7)"
  have score: "cluster_D ?a c = D c" for c
    by (simp add: cluster_D_def window_dihedrals_def D_def)
  have angles: "?a = \<lparr>omega2 = omega r2, phi2 = phi r2, psi2 = psi r2,
                             omega3 = omega r3, phi3 = phi r3, psi3 = psi r3,
                             omega4 = omega r4\<rparr>"
    by (simp only: window_dihedrals_def)
  note s1 = nearest_centroid_scan [OF gate key, of f chain st,
      unfolded score TURN_DIST_CUTOFF_def]
  note s2 = s1 [unfolded angles]
  from s2 have "\<exists>xs turn c ys.
          define_turn_library = xs @ (turn, c) # ys
          \<and> (\<forall>x \<in> set xs. D c < D (snd x))
          \<and> (\<forall>y \<in> set ys. D c \<le> D (snd y))
          \<and> scan_window define_turn_library f chain r1 r2 r3 r4 st =
              (if D c \<le> 2359 / 10000
               then Inr (st\<lparr>minturn := Some turn, nturns := nturns st + 1,
                      printed := printed st @
                        [\<lparr>line_nturns = nturns st + 1, line_chain = chain,
                          line_resnum1 = n, line_resnum4 = n + 3,
                          line_seq = res1 r1 @ res1 r2 @ res1 r3 @ res1 r4,
                          line_dssp_string =
                            dssp_ss r1 @ dssp_ss r2 @ dssp_ss r3 @ dssp_ss r4,
                          line_minturn = turn, line_prevname = prev_name c,
                          line_minD = D c,
                          line_mintheta = degrees (arccos (1 - D c / 2)),
                          line_CA1_CA4_distance = CA1_CA4_distance r1 r4,
                          line_angles =
                            \<lparr>omega2 = omega r2, phi2 = phi r2, psi2 = psi r2,
                             omega3 = omega r3, phi3 = phi r3, psi3 = psi r3,
                             omega4 = omega r4\<rparr>,
                          line_filename = f\<rparr>]\<rparr>)
               else Inr (st\<lparr>minturn := Some turn\<rparr>))"
    by (rule conjunct2)
  moreover have "\<forall>a b. angle_distance a b = 2 * (1 - cos ((a - b) * pi / 180))"
    by (simp only: angle_distance_eq simp_thms)
  ultimately have "(\<forall>a b. angle_distance a b = 2 * (1 - cos ((a - b) * pi / 180)))
     \<and> length define_turn_library = 18
     \<and> (\<exists>xs turn c ys.
          define_turn_library = xs @ (turn, c) # ys
          \<and> (\<forall>x \<in> set xs. D c < D (snd x))
          \<and> (\<forall>y \<in> set ys. D c \<le> D (snd y))
          \<and> scan_window define_turn_library f chain r1 r2 r3 r4 st =
              (if D c \<le> 2359 / 10000
               then Inr (st\<lparr>minturn := Some turn, nturns := nturns st + 1,
                      printed := printed st @
                        [\<lparr>line_nturns = nturns st + 1, line_chain = chain,
                          line_resnum1 = n, line_resnum4 = n + 3,
                          line_seq = res1 r1 @ res1 r2 @ res1 r3 @ res1 r4,
                          line_dssp_string =
                            dssp_ss r1 @ dssp_ss r2 @ dssp_ss r3 @ dssp_ss r4,
                          line_minturn = turn, line_prevname = prev_name c,
                          line_minD = D c,
                          line_mintheta = degrees (arccos (1 - D c / 2)),
                          line_CA1_CA4_distance = CA1_CA4_distance r1 r4,
                          line_angles =
                            \<lparr>omega2 = omega r2, phi2 = phi r2, psi2 = psi r2,
                             omega3 = omega r3, phi3 = phi r3, psi3 = psi r3,
                             omega4 = omega r4\<rparr>,
                          line_filename = f\<rparr>]\<rparr>)
               else Inr (st\<lparr>minturn := Some turn\<rparr>)))"
    using library_length by (intro conjI)
  then show ?thesis unfolding Let_def D_def .
qed

theorem classifier_nearest_centroid_witness:
  "window_gate ad1 ad2 ad3 ad4 = None \<and> py_int (snd (auth_key ad1)) = Inr 7
   \<and> (\<exists>st' line.
        scan_window define_turn_library ''1abc'' ''A'' ad1 ad2 ad3 ad4 state0 = Inr st'
        \<and> nturns st' = 1 \<and> printed st' = [line]
        \<and> line_resnum1 line = 7 \<and> line_resnum4 line = 10 \<and> line_minD line = 0
        \<and> line_angles line =
            \<lparr>omega2 = 18488 / 100, phi2 = - 6527 / 100, psi2 = - 2352 / 100,
             omega3 = 18283 / 100, phi3 = - 9873 / 100, psi3 = - 1806 / 100,
             omega4 = 18110 / 100\<rparr>)"
proof -
  let ?a = "window_dihedrals ad2 ad3 ad4"
  note inst = classifier_nearest_centroid [OF ad_gate ad_key, of "''1abc''" "''A''" state0,
      unfolded Let_def, folded cluster_D_window]
  then obtain xs turn c ys where d: "define_turn_library = xs @ (turn, c) # ys"
    "\<forall>x \<in> set xs. cluster_D ?a c < cluster_D ?a (snd x)"
    "\<forall>y \<in> set ys. cluster_D ?a c \<le> cluster_D ?a (snd y)"
    and run: "scan_window define_turn_library ''1abc'' ''A'' ad1 ad2 ad3 ad4 state0 =
              (if cluster_D ?a c \<le> 2359 / 10000
               then Inr (state0\<lparr>minturn := Some turn, nturns := nturns state0 + 1,
                      printed := printed state0 @
                        [\<lparr>line_nturns = nturns state0 + 1, line_chain = ''A'',
                          line_resnum1 = 7, line_resnum4 = 7 + 3,
                          line_seq = res1 ad1 @ res1 ad2 @ res1 ad3 @ res1 ad4,
                          line_dssp_string =
                            dssp_ss ad1 @ dssp_ss ad2 @ dssp_ss ad3 @ dssp_ss ad4,
                          line_minturn = turn, line_prevname = prev_name c,
                          line_minD = cluster_D ?a c,
                          line_mintheta = degrees (arccos (1 - cluster_D ?a c / 2)),
                          line_CA1_CA4_distance = CA1_CA4_distance ad1 ad4,
                          line_angles =
                            \<lparr>omega2 = omega ad2, phi2 = phi ad2, psi2 = psi ad2,
                             omega3 = omega ad3, phi3 = phi ad3, psi3 = psi ad3,
                             omega4 = omega ad4\<rparr>,
                          line_filename = ''1abc''\<rparr>]\<rparr>)
               else Inr (state0\<lparr>minturn := Some turn\<rparr>))"
    by blast
  have "hd define_turn_library \<in> set define_turn_library"
    using library_nonempty by simp
  from first_minimum_least [OF d(1) d(2) d(3) this]
  have "cluster_D ?a c \<le> cluster_D ?a (snd (hd define_turn_library))" .
  also have "\<dots> = 0" by (simp only: ad_window_is_medoid cluster_D_self)
  finally have "cluster_D ?a c \<le> 0" .
  with cluster_D_nonneg [of ?a c] have z: "cluster_D ?a c = 0" by simp
  let ?line = "\<lparr>line_nturns = nturns state0 + 1, line_chain = ''A'',
                          line_resnum1 = 7, line_resnum4 = 7 + 3,
                          line_seq = res1 ad1 @ res1 ad2 @ res1 ad3 @ res1 ad4,
                          line_dssp_string =
                            dssp_ss ad1 @ dssp_ss ad2 @ dssp_ss ad3 @ dssp_ss ad4,
                          line_minturn = turn, line_prevname = prev_name c,
                          line_minD = 0,
                          line_mintheta = degrees (arccos (1 - 0 / 2)),
                          line_CA1_CA4_distance = CA1_CA4_distance ad1 ad4,
                          line_angles =
                            \<lparr>omega2 = omega ad2, phi2 = phi ad2, psi2 = psi ad2,
                             omega3 = omega ad3, phi3 = phi ad3, psi3 = psi ad3,
                             omega4 = omega ad4\<rparr>,
                          line_filename = ''1abc''\<rparr>"
  let ?st = "state0\<lparr>minturn := Some turn, nturns := nturns state0 + 1,
                      printed := printed state0 @ [?line]\<rparr>"
  have le: "(0::real) \<le> 2359 / 10000" by simp
  from run have r: "scan_window define_turn_library ''1abc'' ''A'' ad1 ad2 ad3 ad4 state0 = Inr ?st"
    by (simp only: z le if_True)
  have p: "nturns ?st = 1" "printed ?st = [?line]" by (simp_all add: state0_def)
  have l: "line_resnum1 ?line = 7" "line_resnum4 ?line = 10" "line_minD ?line = 0" by simp_all
  have g: "line_angles ?line =
            \<lparr>omega2 = 18488 / 100, phi2 = - 6527 / 100, psi2 = - 2352 / 100,
             omega3 = 18283 / 100, phi3 = - 9873 / 100, psi3 = - 1806 / 100,
             omega4 = 18110 / 100\<rparr>"
    by (simp add: ad2_def ad3_def ad4_def sample_row_def)
  from r p l g have "\<exists>st' line.
        scan_window define_turn_library ''1abc'' ''A'' ad1 ad2 ad3 ad4 state0 = Inr st'
        \<and> nturns st' = 1 \<and> printed st' = [line]
        \<and> line_resnum1 line = 7 \<and> line_resnum4 line = 10 \<and> line_minD line = 0
        \<and> line_angles line =
            \<lparr>omega2 = 18488 / 100, phi2 = - 6527 / 100, psi2 = - 2352 / 100,
             omega3 = 18283 / 100, phi3 = - 9873 / 100, psi3 = - 1806 / 100,
             omega4 = 18110 / 100\<rparr>"
    by (intro exI conjI)
  with ad_gate ad_key show ?thesis by (intro conjI)
qed

end
